theory Spec2Isabelle
  imports Complex_Main
begin

section \<open>Errors\<close>

text \<open>
  Every exception the modelled Python can raise is a value: \<open>ValueError\<close> for the explicit
  \<^verbatim>\<open>raise ValueError\<close> and for a label or an index outside the classes it selects from,
  \<open>ZeroDivisionError\<close> for the integer remainder by zero, \<open>ShapeError\<close> for an operand of a
  tensor operation whose shape does not fit, \<open>AssertionError\<close> for a failed \<^verbatim>\<open>assert\<close>,
  \<open>IndexError\<close> for a dimension or an element read out of range, \<open>AttributeError\<close> for a
  sub-layer that was not created.  A computation returns \<open>Inl e\<close> when it raises \<open>e\<close>.
\<close>

datatype error =
  ValueError | ZeroDivisionError | ShapeError | AssertionError | IndexError | AttributeError

definition ebind :: "error + 'a \<Rightarrow> ('a \<Rightarrow> error + 'b) \<Rightarrow> error + 'b" where
  "ebind m f = (case m of Inl e \<Rightarrow> Inl e | Inr x \<Rightarrow> f x)"

lemma ebind_Inr [simp]: "ebind (Inr x) f = f x"
  by (simp add: ebind_def)

lemma ebind_Inl [simp]: "ebind (Inl e) f = Inl e"
  by (simp add: ebind_def)

section \<open>Tensors\<close>

text \<open>
  A tensor is its shape and its elements in row-major order, as the framework stores it.
  Floating-point elements are modelled as real numbers: rounding is not modelled.
\<close>

datatype 'a tensor = Tensor (shape: "nat list") (data: "'a list")

definition wf_tensor :: "'a tensor \<Rightarrow> bool" where
  "wf_tensor t = (length (data t) = prod_list (shape t))"

fun ravel :: "nat list \<Rightarrow> nat list \<Rightarrow> nat" where
  "ravel (n # ns) (i # is) = i * prod_list ns + ravel ns is"
| "ravel _ _ = 0"

fun unravel :: "nat list \<Rightarrow> nat \<Rightarrow> nat list" where
  "unravel [] k = []"
| "unravel (n # ns) k = (k div prod_list ns) # unravel ns (k mod prod_list ns)"

fun valid_index :: "nat list \<Rightarrow> nat list \<Rightarrow> bool" where
  "valid_index [] [] = True"
| "valid_index (n # ns) (i # is) = (i < n \<and> valid_index ns is)"
| "valid_index _ _ = False"

definition get :: "'a tensor \<Rightarrow> nat list \<Rightarrow> 'a" where
  "get t idx = data t ! ravel (shape t) idx"

definition tabulate :: "nat list \<Rightarrow> (nat list \<Rightarrow> 'a) \<Rightarrow> 'a tensor" where
  "tabulate s f = Tensor s (map (\<lambda>k. f (unravel s k)) [0..<prod_list s])"

definition map_tensor :: "('a \<Rightarrow> 'b) \<Rightarrow> 'a tensor \<Rightarrow> 'b tensor" where
  "map_tensor f t = Tensor (shape t) (map f (data t))"

definition full :: "nat list \<Rightarrow> 'a \<Rightarrow> 'a tensor" where
  "full s v = Tensor s (replicate (prod_list s) v)"

definition set_item :: "'a tensor \<Rightarrow> nat list \<Rightarrow> 'a \<Rightarrow> 'a tensor" where
  "set_item t idx v = Tensor (shape t) ((data t)[ravel (shape t) idx := v])"

subsection \<open>Index arithmetic\<close>

lemma ravel_less: "valid_index s idx \<Longrightarrow> ravel s idx < prod_list s"
proof (induction s idx rule: valid_index.induct)
  case (2 n ns i "is")
  then have "i < n" "ravel ns is < prod_list ns" by auto
  then have "i * prod_list ns + ravel ns is < i * prod_list ns + prod_list ns" by simp
  also have "\<dots> = Suc i * prod_list ns" by simp
  also have "\<dots> \<le> n * prod_list ns" using \<open>i < n\<close> by (intro mult_le_mono1) simp
  finally show ?case by simp
qed auto

lemma unravel_ravel: "valid_index s idx \<Longrightarrow> unravel s (ravel s idx) = idx"
proof (induction s idx rule: valid_index.induct)
  case (2 n ns i "is")
  then have r: "ravel ns is < prod_list ns" by (auto intro: ravel_less)
  then show ?case using 2 by simp
qed auto

lemma valid_unravel: "k < prod_list s \<Longrightarrow> valid_index s (unravel s k)"
proof (induction s arbitrary: k)
  case (Cons n ns)
  then have pos: "0 < prod_list ns" by (cases "prod_list ns") auto
  have "k div prod_list ns < n" using Cons.prems pos
    by (simp add: less_mult_imp_div_less mult.commute)
  then show ?case using Cons pos by simp
qed simp

lemma ravel_unravel: "k < prod_list s \<Longrightarrow> ravel s (unravel s k) = k"
proof (induction s arbitrary: k)
  case (Cons n ns)
  then have pos: "0 < prod_list ns" by (cases "prod_list ns") auto
  then show ?case using Cons by simp
qed simp

lemma valid_index_length: "valid_index s idx \<Longrightarrow> length idx = length s"
  by (induction s idx rule: valid_index.induct) auto

lemma ravel_inj:
  "valid_index s idx \<Longrightarrow> valid_index s idx' \<Longrightarrow> ravel s idx = ravel s idx' \<Longrightarrow> idx = idx'"
  by (metis unravel_ravel)

subsection \<open>Elements of the basic constructions\<close>

lemma shape_tabulate [simp]: "shape (tabulate s f) = s"
  by (simp add: tabulate_def)

lemma wf_tabulate [simp]: "wf_tensor (tabulate s f)"
  by (simp add: tabulate_def wf_tensor_def)

lemma get_tabulate: "valid_index s idx \<Longrightarrow> get (tabulate s f) idx = f idx"
  by (simp add: tabulate_def get_def ravel_less unravel_ravel)

lemma shape_map_tensor [simp]: "shape (map_tensor f t) = shape t"
  by (simp add: map_tensor_def)

lemma wf_map_tensor [simp]: "wf_tensor (map_tensor f t) = wf_tensor t"
  by (simp add: map_tensor_def wf_tensor_def)

lemma get_map_tensor:
  "wf_tensor t \<Longrightarrow> valid_index (shape t) idx \<Longrightarrow> get (map_tensor f t) idx = f (get t idx)"
  by (simp add: map_tensor_def get_def wf_tensor_def ravel_less)

lemma shape_full [simp]: "shape (full s v) = s"
  by (simp add: full_def)

lemma wf_full [simp]: "wf_tensor (full s v)"
  by (simp add: full_def wf_tensor_def)

lemma get_full: "valid_index s idx \<Longrightarrow> get (full s v) idx = v"
  by (simp add: full_def get_def ravel_less)

lemma shape_set_item [simp]: "shape (set_item t idx v) = shape t"
  by (simp add: set_item_def)

lemma wf_set_item [simp]: "wf_tensor (set_item t idx v) = wf_tensor t"
  by (simp add: set_item_def wf_tensor_def)

lemma get_set_item:
  assumes "wf_tensor t" "valid_index (shape t) idx" "valid_index (shape t) idx'"
  shows "get (set_item t idx v) idx' = (if idx' = idx then v else get t idx')"
proof (cases "idx' = idx")
  case True
  with assms show ?thesis
    by (simp add: set_item_def get_def wf_tensor_def ravel_less)
next
  case False
  with assms have "ravel (shape t) idx \<noteq> ravel (shape t) idx'"
    using ravel_inj by blast
  with False show ?thesis
    by (simp add: set_item_def get_def)
qed

lemma tensor_eqI:
  assumes "shape a = shape b" "wf_tensor a" "wf_tensor b"
    and "\<And>idx. valid_index (shape a) idx \<Longrightarrow> get a idx = get b idx"
  shows "a = b"
proof -
  have "data a = data b"
  proof (rule nth_equalityI)
    show "length (data a) = length (data b)"
      using assms by (simp add: wf_tensor_def)
  next
    fix k assume "k < length (data a)"
    then have k: "k < prod_list (shape a)" using assms by (simp add: wf_tensor_def)
    from assms(4)[OF valid_unravel[OF k]] show "data a ! k = data b ! k"
      using assms(1) k by (simp add: get_def ravel_unravel)
  qed
  with assms(1) show ?thesis by (simp add: tensor.expand)
qed

section \<open>Operations of the tensor framework\<close>

text \<open>
  The operations the source calls on tensors, with the semantics the framework documents.
  An operation whose operands do not fit returns \<open>Inl ShapeError\<close>.  A dimension written
  \<^verbatim>\<open>-1\<close> in the source is passed as the dimension the framework infers for it.
  Elementwise operations and the batch dimensions of \<open>matmul\<close> broadcast from the right, a
  dimension of size one being repeated; \<open>matmul\<close> is given for operands of rank two and more,
  which is what the source passes, and \<open>tile\<close> for one repeat count per dimension.
\<close>

definition reshape :: "'a tensor \<Rightarrow> nat list \<Rightarrow> error + 'a tensor" where
  "reshape t s =
     (if prod_list s = length (data t) then Inr (Tensor s (data t)) else Inl ShapeError)"

definition index_of :: "nat list \<Rightarrow> nat \<Rightarrow> nat" where
  "index_of perm a = length (takeWhile (\<lambda>p. p \<noteq> a) perm)"

definition tensor_transpose :: "'a tensor \<Rightarrow> nat list \<Rightarrow> error + 'a tensor" where
  "tensor_transpose t perm =
     (let s = shape t; n = length s in
      if length perm = n \<and> distinct perm \<and> list_all (\<lambda>p. p < n) perm
      then Inr (tabulate (map (\<lambda>p. s ! p) perm)
                  (\<lambda>idx. get t (map (\<lambda>a. idx ! index_of perm a) [0..<n])))
      else Inl ShapeError)"

fun broadcast_rev :: "nat list \<Rightarrow> nat list \<Rightarrow> error + nat list" where
  "broadcast_rev [] ys = Inr ys"
| "broadcast_rev xs [] = Inr xs"
| "broadcast_rev (x # xs) (y # ys) =
     (if x = y \<or> y = 1 then ebind (broadcast_rev xs ys) (\<lambda>r. Inr (x # r))
      else if x = 1 then ebind (broadcast_rev xs ys) (\<lambda>r. Inr (y # r))
      else Inl ShapeError)"

definition broadcast_shapes :: "nat list \<Rightarrow> nat list \<Rightarrow> error + nat list" where
  "broadcast_shapes sx sy = ebind (broadcast_rev (rev sx) (rev sy)) (\<lambda>r. Inr (rev r))"

definition bidx :: "nat list \<Rightarrow> nat list \<Rightarrow> nat list" where
  "bidx s idx = map (\<lambda>(n, i). if n = 1 then 0 else i) (zip s (drop (length idx - length s) idx))"

definition elementwise ::
  "('a \<Rightarrow> 'b \<Rightarrow> 'c) \<Rightarrow> 'a tensor \<Rightarrow> 'b tensor \<Rightarrow> error + 'c tensor" where
  "elementwise f x y =
     ebind (broadcast_shapes (shape x) (shape y)) (\<lambda>s.
       Inr (tabulate s (\<lambda>idx. f (get x (bidx (shape x) idx)) (get y (bidx (shape y) idx)))))"

definition matmul :: "real tensor \<Rightarrow> real tensor \<Rightarrow> error + real tensor" where
  "matmul x y =
     (let sx = shape x; sy = shape y in
      if length sx < 2 \<or> length sy < 2 then Inl ShapeError
      else
        let bx = butlast (butlast sx); by = butlast (butlast sy);
            m = last (butlast sx); k = last sx; k' = last (butlast sy); n = last sy
        in if k \<noteq> k' then Inl ShapeError
           else ebind (broadcast_shapes bx by) (\<lambda>b.
             Inr (tabulate (b @ [m, n]) (\<lambda>idx.
               let bi = butlast (butlast idx); i = last (butlast idx); j = last idx
               in sum_list (map (\<lambda>c. get x (bidx bx bi @ [i, c]) * get y (bidx by bi @ [c, j]))
                            [0..<k])))))"

definition arange :: "nat \<Rightarrow> int tensor" where
  "arange n = Tensor [n] (map int [0..<n])"

definition tile :: "'a tensor \<Rightarrow> nat list \<Rightarrow> 'a tensor" where
  "tile t repeat_times =
     tabulate (map (\<lambda>(n, r). n * r) (zip (shape t) repeat_times))
       (\<lambda>idx. get t (map (\<lambda>(i, n). i mod n) (zip idx (shape t))))"

definition clip :: "real tensor \<Rightarrow> real \<Rightarrow> real \<Rightarrow> real tensor" where
  "clip t lo hi = map_tensor (\<lambda>x. min (max x lo) hi) t"

definition trunc :: "real \<Rightarrow> int" where
  "trunc x = (if 0 \<le> x then \<lfloor>x\<rfloor> else \<lceil>x\<rceil>)"

definition one_hot :: "int tensor \<Rightarrow> nat \<Rightarrow> error + real tensor" where
  "one_hot t num_classes =
     (if list_all (\<lambda>v. 0 \<le> v \<and> v < int num_classes) (data t)
      then Inr (tabulate (shape t @ [num_classes])
                  (\<lambda>idx. if get t (butlast idx) = int (last idx) then 1 else 0))
      else Inl ValueError)"

subsection \<open>What an operation returns\<close>

text \<open>
  \<open>returns m s f\<close>: the computation \<open>m\<close> succeeds with a well-formed tensor of shape \<open>s\<close>
  whose element at every valid index \<open>idx\<close> is \<open>f idx\<close>.
\<close>

definition returns :: "error + 'a tensor \<Rightarrow> nat list \<Rightarrow> (nat list \<Rightarrow> 'a) \<Rightarrow> bool" where
  "returns m s f =
     (\<exists>r. m = Inr r \<and> shape r = s \<and> wf_tensor r \<and> (\<forall>idx. valid_index s idx \<longrightarrow> get r idx = f idx))"

lemma returnsE:
  assumes "returns m s f"
  obtains r where "m = Inr r" "shape r = s" "wf_tensor r"
    "\<And>idx. valid_index s idx \<Longrightarrow> get r idx = f idx"
  using assms unfolding returns_def by blast

lemma returns_tabulate: "(\<And>idx. valid_index s idx \<Longrightarrow> g idx = f idx) \<Longrightarrow> returns (Inr (tabulate s g)) s f"
  by (simp add: returns_def get_tabulate)

lemma valid_index_Cons: "valid_index (n # ns) idx = (\<exists>i is. idx = i # is \<and> i < n \<and> valid_index ns is)"
  by (cases idx) auto

lemma valid_index_Nil: "valid_index [] idx = (idx = [])"
  by (cases idx) auto

lemma upt_2: "[0..<2] = [0, 1]" by (simp add: upt_rec)
lemma upt_3: "[0..<3] = [0, 1, 2]" by (simp add: upt_rec)
lemma upt_4: "[0..<4] = [0, 1, 2, 3]" by (simp add: upt_rec)

lemma bidx_valid_elem [simp]: "i < n \<Longrightarrow> (if n = Suc 0 then 0 else i) = i"
  by auto

lemma tr2: "shape t = [a, b] \<Longrightarrow> returns (tensor_transpose t [1, 0]) [b, a] (\<lambda>idx. get t [idx ! 1, idx ! 0])"
  by (auto simp add: tensor_transpose_def index_of_def upt_2 valid_index_Cons valid_index_Nil intro!: returns_tabulate)

section \<open>NeZha: the table of relative position embeddings\<close>

text \<open>
  \<^verbatim>\<open>NeZhaAttention.generate_relative_positions_embeddings\<close>.  The numpy table is filled by
  the two nested loops of the source, one assignment after the other; \<open>fill_pos\<close> is the
  inner loop for one row and \<open>fill_table\<close> the outer loop over the rows.  The distances are
  small integers, which the casts to \<^verbatim>\<open>float32\<close> and back to \<^verbatim>\<open>int64\<close> represent exactly.
\<close>

definition fill_pos :: "nat \<Rightarrow> nat \<Rightarrow> real tensor \<Rightarrow> real tensor" where
  "fill_pos depth pos embeddings_table =
     fold (\<lambda>i tb.
             set_item
               (set_item tb [pos, 2 * i] (sin (real pos / 10000 powr (real (2 * i) / real depth))))
               [pos, 2 * i + 1] (cos (real pos / 10000 powr (real (2 * i) / real depth))))
          [0..<depth div 2] embeddings_table"

definition fill_table :: "nat \<Rightarrow> nat \<Rightarrow> real tensor" where
  "fill_table vocab_size depth =
     fold (fill_pos depth) [0..<vocab_size] (full [vocab_size, depth] 0)"

definition generate_relative_positions_embeddings :: "nat \<Rightarrow> nat \<Rightarrow> nat \<Rightarrow> error + real tensor" where
  "generate_relative_positions_embeddings length' depth max_relative_position =
     (let vocab_size = max_relative_position * 2 + 1;
          range_vec = arange length' in
      ebind (reshape (tile range_vec [length']) [length', length']) (\<lambda>range_mat.
      ebind (tensor_transpose range_mat [1, 0]) (\<lambda>range_mat_t.
      ebind (elementwise (-) range_mat range_mat_t) (\<lambda>distance_mat.
        let distance_mat_clipped =
              clip (map_tensor real_of_int distance_mat)
                (- real max_relative_position) (real max_relative_position);
            final_mat = map_tensor (\<lambda>x. x + real max_relative_position) distance_mat_clipped;
            embeddings_table_tensor = fill_table vocab_size depth
        in
      ebind (reshape final_mat [prod_list (shape final_mat)]) (\<lambda>flat_relative_positions_matrix.
      ebind (one_hot (map_tensor trunc flat_relative_positions_matrix) vocab_size)
        (\<lambda>one_hot_relative_positions_matrix.
      ebind (matmul one_hot_relative_positions_matrix embeddings_table_tensor) (\<lambda>embeddings.
        reshape embeddings (shape final_mat @ [depth]))))))))"

text \<open>
  The table as the loops leave it: column \<open>c\<close> of row \<open>pos\<close> holds a sine or a cosine for
  \<open>c < 2 * (depth div 2)\<close> and stays zero otherwise (the last column of an odd depth);
  \<open>bucket\<close> is the row the source selects for the pair \<open>(i, j)\<close>.
\<close>

definition sinusoid :: "nat \<Rightarrow> nat \<Rightarrow> nat \<Rightarrow> real" where
  "sinusoid depth pos c =
     (if c < 2 * (depth div 2)
      then (if even c then sin (real pos / 10000 powr (real c / real depth))
            else cos (real pos / 10000 powr (real (c - 1) / real depth)))
      else 0)"

definition bucket :: "nat \<Rightarrow> nat \<Rightarrow> nat \<Rightarrow> nat" where
  "bucket max_relative_position i j =
     nat (min (max (int j - int i) (- int max_relative_position)) (int max_relative_position)
          + int max_relative_position)"

lemma fold_upt_Suc: "fold f [0..<Suc n] a = f n (fold f [0..<n] a)"
  by simp

lemma fill_pos_aux:
  assumes "wf_tensor tb" "shape tb = [V, depth]" "pos < V" "n \<le> depth div 2"
  defines "r \<equiv> fold (\<lambda>i tb.
             set_item
               (set_item tb [pos, 2 * i] (sin (real pos / 10000 powr (real (2 * i) / real depth))))
               [pos, 2 * i + 1] (cos (real pos / 10000 powr (real (2 * i) / real depth))))
          [0..<n] tb"
  shows "wf_tensor r \<and> shape r = [V, depth] \<and>
    (\<forall>p c. p < V \<longrightarrow> c < depth \<longrightarrow> get r [p, c] =
       (if p = pos \<and> c < 2 * n
        then (if even c then sin (real pos / 10000 powr (real c / real depth))
              else cos (real pos / 10000 powr (real (c - 1) / real depth)))
        else get tb [p, c]))"
  using assms(4) unfolding r_def
proof (induction n)
  case 0
  then show ?case using assms(1,2) by simp
next
  case (Suc n)
  let ?f = "(\<lambda>i tb.
             set_item
               (set_item tb [pos, 2 * i] (sin (real pos / 10000 powr (real (2 * i) / real depth))))
               [pos, 2 * i + 1] (cos (real pos / 10000 powr (real (2 * i) / real depth))))"
  let ?t = "fold ?f [0..<n] tb"
  from Suc have IH: "wf_tensor ?t" "shape ?t = [V, depth]"
    "\<And>p c. p < V \<Longrightarrow> c < depth \<Longrightarrow> get ?t [p, c] =
       (if p = pos \<and> c < 2 * n
        then (if even c then sin (real pos / 10000 powr (real c / real depth))
              else cos (real pos / 10000 powr (real (c - 1) / real depth)))
        else get tb [p, c])"
    by auto
  from Suc.prems have b: "2 * n < depth" "2 * n + 1 < depth" by auto
  have eq: "fold ?f [0..<Suc n] tb = ?f n ?t" by simp
  show ?case
    unfolding eq
  proof (intro conjI allI impI)
    show "wf_tensor (?f n ?t)" using IH by simp
    show "shape (?f n ?t) = [V, depth]" using IH by simp
  next
    fix p c assume pc: "p < V" "c < depth"
    have "c < 2 * Suc n \<longleftrightarrow> c < 2 * n \<or> c = 2 * n \<or> c = 2 * n + 1" by auto
    then show "get (?f n ?t) [p, c] =
       (if p = pos \<and> c < 2 * Suc n
        then (if even c then sin (real pos / 10000 powr (real c / real depth))
              else cos (real pos / 10000 powr (real (c - 1) / real depth)))
        else get tb [p, c])"
      using IH pc b assms(3)
      by (auto simp: get_set_item)
  qed
qed


lemma fill_pos_get:
  assumes "wf_tensor tb" "shape tb = [V, depth]" "pos < V"
  shows "wf_tensor (fill_pos depth pos tb)" "shape (fill_pos depth pos tb) = [V, depth]"
    "\<And>p c. p < V \<Longrightarrow> c < depth \<Longrightarrow>
       get (fill_pos depth pos tb) [p, c] =
         (if p = pos \<and> c < 2 * (depth div 2) then sinusoid depth pos c else get tb [p, c])"
proof -
  note a = fill_pos_aux[OF assms order_refl, folded fill_pos_def]
  show "wf_tensor (fill_pos depth pos tb)" "shape (fill_pos depth pos tb) = [V, depth]"
    using a by blast+
  fix p c assume "p < V" "c < depth"
  with a have "get (fill_pos depth pos tb) [p, c] =
       (if p = pos \<and> c < 2 * (depth div 2)
        then (if even c then sin (real pos / 10000 powr (real c / real depth))
              else cos (real pos / 10000 powr (real (c - 1) / real depth)))
        else get tb [p, c])"
    by blast
  then show "get (fill_pos depth pos tb) [p, c] =
         (if p = pos \<and> c < 2 * (depth div 2) then sinusoid depth pos c else get tb [p, c])"
    by (simp add: sinusoid_def)
qed

lemma fill_table_aux:
  "n \<le> V \<Longrightarrow>
    wf_tensor (fold (fill_pos depth) [0..<n] (full [V, depth] 0)) \<and>
    shape (fold (fill_pos depth) [0..<n] (full [V, depth] 0)) = [V, depth] \<and>
    (\<forall>p c. p < V \<longrightarrow> c < depth \<longrightarrow>
       get (fold (fill_pos depth) [0..<n] (full [V, depth] 0)) [p, c] =
         (if p < n then sinusoid depth p c else 0))"
proof (induction n)
  case 0
  then show ?case by (simp add: get_full)
next
  case (Suc n)
  let ?t = "fold (fill_pos depth) [0..<n] (full [V, depth] 0)"
  from Suc have IH: "wf_tensor ?t" "shape ?t = [V, depth]"
    "\<And>p c. p < V \<Longrightarrow> c < depth \<Longrightarrow> get ?t [p, c] = (if p < n then sinusoid depth p c else 0)"
    by auto
  from Suc.prems have n: "n < V" by simp
  have eq: "fold (fill_pos depth) [0..<Suc n] (full [V, depth] 0) = fill_pos depth n ?t" by simp
  note fp = fill_pos_get[OF IH(1,2) n]
  show ?case unfolding eq
  proof (intro conjI allI impI)
    show "wf_tensor (fill_pos depth n ?t)" "shape (fill_pos depth n ?t) = [V, depth]"
      using fp by blast+
  next
    fix p c assume pc: "p < V" "c < depth"
    show "get (fill_pos depth n ?t) [p, c] = (if p < Suc n then sinusoid depth p c else 0)"
      using fp(3)[OF pc] IH(3)[OF pc] by (auto simp: less_Suc_eq sinusoid_def)
  qed
qed

lemma fill_table_get:
  shows "wf_tensor (fill_table V depth)" "shape (fill_table V depth) = [V, depth]"
    "\<And>p c. p < V \<Longrightarrow> c < depth \<Longrightarrow> get (fill_table V depth) [p, c] = sinusoid depth p c"
  using fill_table_aux[OF order_refl, where V = V and depth = depth]
  by (auto simp: fill_table_def)

lemma shape_arange [simp]: "shape (arange n) = [n]"
  by (simp add: arange_def)

lemma wf_arange [simp]: "wf_tensor (arange n)"
  by (simp add: arange_def wf_tensor_def)

lemma get_arange: "i < n \<Longrightarrow> get (arange n) [i] = int i"
  by (simp add: arange_def get_def)

lemma returns_reshape:
  "wf_tensor t \<Longrightarrow> prod_list s = prod_list (shape t) \<Longrightarrow>
     returns (reshape t s) s (\<lambda>idx. data t ! ravel s idx)"
  by (simp add: returns_def reshape_def wf_tensor_def get_def)

lemma returns_one_hot:
  assumes "wf_tensor t" "shape t = [n]" "\<And>i. i < n \<Longrightarrow> 0 \<le> get t [i] \<and> get t [i] < int k"
  shows "returns (one_hot t k) [n, k] (\<lambda>idx. if get t [idx ! 0] = int (idx ! 1) then 1 else 0)"
proof -
  have "list_all (\<lambda>v. 0 \<le> v \<and> v < int k) (data t)"
    unfolding list_all_length
  proof (intro allI impI)
    fix i assume "i < length (data t)"
    then have "i < n" using assms(1,2) by (simp add: wf_tensor_def)
    from assms(3)[OF this] show "0 \<le> data t ! i \<and> data t ! i < int k"
      using assms(2) by (simp add: get_def)
  qed
  then show ?thesis
    using assms(2)
    by (auto simp: one_hot_def valid_index_Cons valid_index_Nil intro!: returns_tabulate)
qed

lemma mm22: "shape x = [m, k] \<Longrightarrow> shape y = [k, n] \<Longrightarrow>
   returns (matmul x y) [m, n] (\<lambda>idx. \<Sum>c<k. get x [idx ! 0, c] * get y [c, idx ! 1])"
  by (auto simp add: matmul_def broadcast_shapes_def Let_def bidx_def valid_index_Cons valid_index_Nil
       interv_sum_list_conv_sum_set_nat atLeast0LessThan  intro!: returns_tabulate)

lemma el22: "shape x = [a, b] \<Longrightarrow> shape y = [a, b] \<Longrightarrow>
   returns (elementwise f x y) [a, b] (\<lambda>idx. f (get x idx) (get y idx))"
  by (auto simp add: elementwise_def broadcast_shapes_def Let_def bidx_def valid_index_Cons valid_index_Nil
        intro!: returns_tabulate)

lemma bucket_less: "bucket m i j < m * 2 + 1"
  by (auto simp: bucket_def)

lemma generate_returns:
  "returns (generate_relative_positions_embeddings len depth m) [len, len, depth]
     (\<lambda>idx. sinusoid depth (bucket m (idx ! 0) (idx ! 1)) (idx ! 2))"
proof -
  define V where "V = m * 2 + 1"
  have bl: "bucket m i j < V" for i j
    unfolding V_def by (rule bucket_less)
  let ?tl = "tile (arange len) [len]"
  have tl: "shape ?tl = [len * len]" "wf_tensor ?tl"
    by (simp_all add: tile_def)
  have tl_get: "get ?tl [k] = int (k mod len)" if "k < len * len" for k
  proof -
    from that have "0 < len" by (cases len) auto
    then show ?thesis using that by (simp add: tile_def get_tabulate get_arange)
  qed
  obtain range_mat where rm: "reshape ?tl [len, len] = Inr range_mat"
    "shape range_mat = [len, len]" "wf_tensor range_mat"
    "\<And>idx. valid_index [len, len] idx \<Longrightarrow> get range_mat idx = data ?tl ! ravel [len, len] idx"
    by (rule returnsE[OF returns_reshape[OF tl(2), of "[len, len]"]]) (simp_all add: tl)
  have rm_get: "get range_mat [i, j] = int j" if "i < len" "j < len" for i j
  proof -
    have "i * len + j < i * len + len" using that by simp
    also have "\<dots> = Suc i * len" by simp
    also have "\<dots> \<le> len * len" using that by (intro mult_le_mono1) simp
    finally have lt: "i * len + j < len * len" .
    have "get range_mat [i, j] = data ?tl ! ravel [len, len] [i, j]"
      using that by (simp add: rm(4))
    also have "\<dots> = get ?tl [i * len + j]"
      by (simp add: get_def tl)
    finally show ?thesis using that lt by (simp add: tl_get)
  qed
  obtain range_mat_t where rt: "tensor_transpose range_mat [1, 0] = Inr range_mat_t"
    "shape range_mat_t = [len, len]" "wf_tensor range_mat_t"
    "\<And>idx. valid_index [len, len] idx \<Longrightarrow> get range_mat_t idx = get range_mat [idx ! 1, idx ! 0]"
    by (rule returnsE[OF tr2[OF rm(2)]]) (rule that)
  obtain distance_mat where dm: "elementwise (-) range_mat range_mat_t = Inr distance_mat"
    "shape distance_mat = [len, len]" "wf_tensor distance_mat"
    "\<And>idx. valid_index [len, len] idx \<Longrightarrow>
        get distance_mat idx = get range_mat idx - get range_mat_t idx"
    by (rule returnsE[OF el22[OF rm(2) rt(2)]]) (rule that)
  have dm_get: "get distance_mat [i, j] = int j - int i" if "i < len" "j < len" for i j
    using that by (simp add: dm(4) rt(4) rm_get)
  define final_mat where "final_mat =
    map_tensor (\<lambda>x. x + real m) (clip (map_tensor real_of_int distance_mat) (- real m) (real m))"
  have fin: "shape final_mat = [len, len]" "wf_tensor final_mat"
    using dm by (simp_all add: clip_def final_mat_def)
  have fin_get: "get final_mat [i, j] = real (bucket m i j)" if "i < len" "j < len" for i j
  proof -
    have "get final_mat [i, j] =
        min (max (real_of_int (get distance_mat [i, j])) (- real m)) (real m) + real m"
      using that by (simp add: final_mat_def clip_def get_map_tensor dm(2,3))
    also have "\<dots> = real_of_int (min (max (int j - int i) (- int m)) (int m) + int m)"
      using that by (simp add: dm_get min_def max_def)
    also have "\<dots> = real (bucket m i j)"
      by (simp add: bucket_def min_def max_def)
    finally show ?thesis .
  qed
  have "returns (reshape final_mat [len * len]) [len * len]
          (\<lambda>idx. data final_mat ! ravel [len * len] idx)"
    by (rule returns_reshape[OF fin(2)]) (simp add: fin(1))
  then obtain flat where fl: "reshape final_mat [len * len] = Inr flat"
    "shape flat = [len * len]" "wf_tensor flat"
    "\<And>idx. valid_index [len * len] idx \<Longrightarrow> get flat idx = data final_mat ! ravel [len * len] idx"
    by (rule returnsE) (rule that)
  define fi where "fi = map_tensor trunc flat"
  have fi: "shape fi = [len * len]" "wf_tensor fi" using fl by (simp_all add: fi_def)
  have fi_get: "get fi [i * len + j] = int (bucket m i j)" if "i < len" "j < len" for i j
  proof -
    have "i * len + j < i * len + len" using that by simp
    also have "\<dots> = Suc i * len" by simp
    also have "\<dots> \<le> len * len" using that by (intro mult_le_mono1) simp
    finally have lt: "i * len + j < len * len" .
    have "get flat [i * len + j] = data final_mat ! ravel [len * len] [i * len + j]"
      using lt by (simp add: fl(4))
    also have "\<dots> = get final_mat [i, j]"
      by (simp add: get_def fin(1))
    finally show ?thesis using lt that fl by (simp add: fi_def get_map_tensor fin_get trunc_def)
  qed
  have fi_range: "0 \<le> get fi [k] \<and> get fi [k] < int V" if "k < len * len" for k
  proof -
    from that have pos: "0 < len" by (cases len) auto
    have "k div len < len" using that pos by (simp add: less_mult_imp_div_less)
    moreover have "k mod len < len" using pos by simp
    ultimately have "get fi [k div len * len + k mod len] = int (bucket m (k div len) (k mod len))"
      by (rule fi_get)
    then show ?thesis using bl[of "k div len" "k mod len"] by simp
  qed
  have "returns (one_hot fi V) [len * len, V]
          (\<lambda>idx. if get fi [idx ! 0] = int (idx ! 1) then 1 else 0)"
    using fi_range by (intro returns_one_hot[OF fi(2) fi(1)]) blast
  then obtain oh where oh: "one_hot fi V = Inr oh" "shape oh = [len * len, V]" "wf_tensor oh"
    "\<And>idx. valid_index [len * len, V] idx \<Longrightarrow>
       get oh idx = (if get fi [idx ! 0] = int (idx ! 1) then 1 else 0)"
    by (rule returnsE) (rule that)
  note ft = fill_table_get[where V = V and depth = depth]
  obtain emb where emb: "matmul oh (fill_table V depth) = Inr emb"
    "shape emb = [len * len, depth]" "wf_tensor emb"
    "\<And>idx. valid_index [len * len, depth] idx \<Longrightarrow>
       get emb idx = (\<Sum>c<V. get oh [idx ! 0, c] * get (fill_table V depth) [c, idx ! 1])"
    by (rule returnsE[OF mm22[OF oh(2) ft(2)]]) (rule that)
  have emb_get: "get emb [i * len + j, c] = sinusoid depth (bucket m i j) c"
    if "i < len" "j < len" "c < depth" for i j c
  proof -
    have "i * len + j < i * len + len" using that by simp
    also have "\<dots> = Suc i * len" by simp
    also have "\<dots> \<le> len * len" using that by (intro mult_le_mono1) simp
    finally have lt: "i * len + j < len * len" .
    have "get emb [i * len + j, c] =
       (\<Sum>v<V. get oh [i * len + j, v] * get (fill_table V depth) [v, c])"
      using lt that by (simp add: emb(4))
    also have "\<dots> = (\<Sum>v<V. (if bucket m i j = v then 1 else 0) * sinusoid depth v c)"
      using lt that by (intro sum.cong) (simp_all add: oh(4) fi_get ft(3) bl)
    also have "\<dots> = (\<Sum>v<V. if v = bucket m i j then sinusoid depth v c else 0)"
      by (intro sum.cong) auto
    also have "\<dots> = sinusoid depth (bucket m i j) c"
      using bl[of i j] by simp
    finally show ?thesis .
  qed
  have "returns (reshape emb [len, len, depth]) [len, len, depth]
          (\<lambda>idx. data emb ! ravel [len, len, depth] idx)"
    by (rule returns_reshape[OF emb(3)]) (simp add: emb(2))
  then obtain res where res: "reshape emb [len, len, depth] = Inr res"
    "shape res = [len, len, depth]" "wf_tensor res"
    "\<And>idx. valid_index [len, len, depth] idx \<Longrightarrow>
       get res idx = data emb ! ravel [len, len, depth] idx"
    by (rule returnsE) (rule that)
  have res_get: "get res idx = sinusoid depth (bucket m (idx ! 0) (idx ! 1)) (idx ! 2)"
    if "valid_index [len, len, depth] idx" for idx
  proof -
    from that obtain i j c where idx: "idx = [i, j, c]" "i < len" "j < len" "c < depth"
      by (auto simp: valid_index_Cons valid_index_Nil)
    have "get res idx = data emb ! ravel [len, len, depth] idx"
      using that by (simp add: res(4))
    also have "\<dots> = get emb [i * len + j, c]"
      by (simp add: get_def emb(2) idx algebra_simps)
    finally show ?thesis using idx by (simp add: emb_get)
  qed
  have s1: "[prod_list (shape final_mat)] = [len * len]"
    and s2: "shape final_mat @ [depth] = [len, len, depth]"
    by (simp_all add: fin(1))
  have "generate_relative_positions_embeddings len depth m = Inr res"
    unfolding generate_relative_positions_embeddings_def Let_def
    by (simp only: rm(1) rt(1) dm(1) ebind_Inr final_mat_def[symmetric] s1 s2 fl(1)
          fi_def[symmetric] V_def[symmetric] oh(1) emb(1) res(1))
  then show ?thesis
    using res(2,3) res_get by (simp add: returns_def)
qed

subsection \<open>The table as the specification describes it\<close>

text \<open>
  The specification's construction, in its own words: the distance matrix \<open>D[i, j] = i - j\<close>
  clipped to \<open>[-max_relative_position, max_relative_position]\<close>, the bucket
  \<open>D + max_relative_position\<close>, and a sinusoidal table with a sine in every even column and
  a cosine in every odd one.
\<close>

definition spec_distance :: "nat \<Rightarrow> nat \<Rightarrow> nat \<Rightarrow> int" where
  "spec_distance max_relative_position i j =
     min (max (int i - int j) (- int max_relative_position)) (int max_relative_position)"




subsection \<open>What the builder returns\<close>

lemma generate_eq:
  "generate_relative_positions_embeddings len depth m =
     Inr (tabulate [len, len, depth]
            (\<lambda>idx. sinusoid depth (bucket m (idx ! 0) (idx ! 1)) (idx ! 2)))"
proof -
  obtain r where r: "generate_relative_positions_embeddings len depth m = Inr r"
    "shape r = [len, len, depth]" "wf_tensor r"
    "\<And>idx. valid_index [len, len, depth] idx \<Longrightarrow>
       get r idx = sinusoid depth (bucket m (idx ! 0) (idx ! 1)) (idx ! 2)"
    by (rule returnsE[OF generate_returns]) (rule that)
  have "r = tabulate [len, len, depth]
            (\<lambda>idx. sinusoid depth (bucket m (idx ! 0) (idx ! 1)) (idx ! 2))"
    by (rule tensor_eqI) (simp_all add: r get_tabulate)
  with r(1) show ?thesis by simp
qed



lemma bucket_spec_distance:
  "bucket m i j = nat (int m - spec_distance m i j)"
  unfolding bucket_def spec_distance_def by (auto simp: min_def max_def)

text \<open>
  C4.  For every length, depth and max_relative_position the table has shape
  \<open>(length, length, depth)\<close>, and two index pairs \<open>(i, j)\<close> and \<open>(i', j')\<close> with the same
  clipped difference \<open>clip(i - j)\<close> have equal depth-vectors.
\<close>

theorem relative_positions_depend_on_clipped_difference:
  "\<exists>T. generate_relative_positions_embeddings length' depth max_relative_position = Inr T \<and>
      shape T = [length', length', depth] \<and>
      (\<forall>i j i' j' c. i < length' \<longrightarrow> j < length' \<longrightarrow> i' < length' \<longrightarrow> j' < length' \<longrightarrow> c < depth \<longrightarrow>
         spec_distance max_relative_position i j = spec_distance max_relative_position i' j' \<longrightarrow>
         get T [i, j, c] = get T [i', j', c])"
  unfolding generate_eq
  by (simp add: get_tabulate bucket_spec_distance)

theorem relative_positions_depend_on_clipped_difference_witness:
  "\<exists>T. generate_relative_positions_embeddings 3 2 1 = Inr T \<and> shape T = [3, 3, 2] \<and>
      spec_distance 1 2 0 = spec_distance 1 2 1 \<and> get T [2, 0, 1] = get T [2, 1, 1]"
proof -
  obtain T where T: "generate_relative_positions_embeddings 3 2 1 = Inr T" "shape T = [3, 3, 2]"
    "\<forall>i j i' j' c. i < 3 \<longrightarrow> j < 3 \<longrightarrow> i' < 3 \<longrightarrow> j' < 3 \<longrightarrow> c < 2 \<longrightarrow>
         spec_distance 1 i j = spec_distance 1 i' j' \<longrightarrow> get T [i, j, c] = get T [i', j', c]"
    using relative_positions_depend_on_clipped_difference[of 3 2 1] by blast
  have d: "spec_distance 1 2 0 = spec_distance 1 2 1" by (simp add: spec_distance_def)
  with T(3) have "get T [2, 0, 1] = get T [2, 1, 1]" by simp
  with T d show ?thesis by blast
qed

section \<open>NeZha: relative-position self-attention\<close>

text \<open>
  \<^verbatim>\<open>softmax\<close> over the last axis, a prefix slice \<^verbatim>\<open>x[:e0, :e1, ...]\<close> (an end beyond the
  dimension is clamped to it, as Python slices are), and dropout, whose random keep-mask is
  an argument: outside training, or with probability zero, dropout is the identity.
\<close>

definition softmax :: "real tensor \<Rightarrow> real tensor" where
  "softmax x =
     tabulate (shape x)
       (\<lambda>idx. exp (get x idx) /
               sum_list (map (\<lambda>c. exp (get x (butlast idx @ [c]))) [0..<last (shape x)]))"

definition slice_to :: "'a tensor \<Rightarrow> nat list \<Rightarrow> 'a tensor" where
  "slice_to x ends =
     tabulate (map (\<lambda>(e, n). min e n) (zip ends (shape x)) @ drop (length ends) (shape x))
       (\<lambda>idx. get x idx)"

definition dropout :: "real \<Rightarrow> bool \<Rightarrow> (nat \<Rightarrow> bool) \<Rightarrow> real tensor \<Rightarrow> real tensor" where
  "dropout p training keep x =
     (if \<not> training \<or> p = 0 then x
      else if p = 1 then map_tensor (\<lambda>v. 0) x
      else Tensor (shape x)
             (map (\<lambda>(k, v). if keep k then v / (1 - p) else 0) (zip [0..<length (data x)] (data x))))"

text \<open>
  \<^verbatim>\<open>nn.Linear\<close> and \<^verbatim>\<open>nn.LayerNorm\<close>.  The framework draws the initial parameters; here the
  \<open>initializer\<close> gives the initial tensor of a named parameter of a given shape.
\<close>

record Linear =
  weight :: "real tensor"
  bias :: "real tensor"

definition Linear_init :: "(string \<Rightarrow> nat list \<Rightarrow> real tensor) \<Rightarrow> string \<Rightarrow> nat \<Rightarrow> nat \<Rightarrow> Linear" where
  "Linear_init initializer name in_features out_features =
     \<lparr>weight = initializer (name @ ''.weight'') [in_features, out_features],
      bias = initializer (name @ ''.bias'') [out_features]\<rparr>"

definition Linear_forward :: "Linear \<Rightarrow> real tensor \<Rightarrow> error + real tensor" where
  "Linear_forward self x = ebind (matmul x (weight self)) (\<lambda>y. elementwise (+) y (bias self))"

record LayerNorm =
  ln_weight :: "real tensor"
  ln_bias :: "real tensor"
  epsilon :: real

definition LayerNorm_init :: "(string \<Rightarrow> nat list \<Rightarrow> real tensor) \<Rightarrow> string \<Rightarrow> nat \<Rightarrow> real \<Rightarrow> LayerNorm" where
  "LayerNorm_init initializer name normalized_shape eps =
     \<lparr>ln_weight = initializer (name @ ''.weight'') [normalized_shape],
      ln_bias = initializer (name @ ''.bias'') [normalized_shape],
      epsilon = eps\<rparr>"

definition LayerNorm_forward :: "LayerNorm \<Rightarrow> real tensor \<Rightarrow> error + real tensor" where
  "LayerNorm_forward self x =
     (if shape x = [] \<or> shape (ln_weight self) \<noteq> [last (shape x)]
         \<or> shape (ln_bias self) \<noteq> [last (shape x)]
      then Inl ShapeError
      else Inr (tabulate (shape x) (\<lambda>idx.
        let n = last (shape x);
            row = map (\<lambda>c. get x (butlast idx @ [c])) [0..<n];
            mean = sum_list row / real n;
            var = sum_list (map (\<lambda>v. (v - mean)\<^sup>2) row) / real n
        in (get x idx - mean) / sqrt (var + epsilon self) * get (ln_weight self) [last idx]
             + get (ln_bias self) [last idx])))"

text \<open>
  \<^verbatim>\<open>NeZhaAttention\<close>.  In \<^verbatim>\<open>__init__\<close> the remainder \<^verbatim>\<open>hidden_size % num_attention_heads\<close>
  raises \<^verbatim>\<open>ZeroDivisionError\<close> for a head count of zero; \<^verbatim>\<open>int(hidden_size / num_attention_heads)\<close>
  is the exact quotient once the remainder is zero (the float quotient of two dimensions is
  exact below \<open>2^53\<close>).  The body of \<^verbatim>\<open>forward\<close> is split where the source's comments split
  it: \<open>NeZhaAttention_scores\<close> up to the masked logits, then softmax and dropout in
  \<open>NeZhaAttention_forward\<close>, \<open>NeZhaAttention_context\<close> for the value aggregation and the
  merging of the heads, and \<open>NeZhaAttention_output\<close> for the output projection, dropout,
  residual and layer norm.  The random keep-masks of the two dropouts are \<open>rng 0\<close> and
  \<open>rng 1\<close>.
\<close>

record NeZhaAttention =
  num_attention_heads :: nat
  attention_head_size :: nat
  all_head_size :: nat
  query :: Linear
  key :: Linear
  value' :: Linear
  relative_positions_embeddings :: "real tensor"
  attention_dropout :: real
  dense :: Linear
  layer_norm :: LayerNorm
  output_dropout :: real

definition NeZhaAttention_init ::
  "(string \<Rightarrow> nat list \<Rightarrow> real tensor) \<Rightarrow> nat \<Rightarrow> nat \<Rightarrow> real \<Rightarrow> real \<Rightarrow> nat \<Rightarrow> real
     \<Rightarrow> error + NeZhaAttention" where
  "NeZhaAttention_init initializer hidden_size heads hidden_dropout_prob
       attention_probs_dropout_prob max_relative_position layer_norm_eps =
     (if heads = 0 then Inl ZeroDivisionError
      else if hidden_size mod heads \<noteq> 0 then Inl ValueError
      else
        let head_size = hidden_size div heads;
            all_heads = heads * head_size
        in ebind (generate_relative_positions_embeddings 512 head_size max_relative_position)
             (\<lambda>embeddings.
                Inr \<lparr>num_attention_heads = heads,
                     attention_head_size = head_size,
                     all_head_size = all_heads,
                     query = Linear_init initializer ''query'' hidden_size all_heads,
                     key = Linear_init initializer ''key'' hidden_size all_heads,
                     value' = Linear_init initializer ''value'' hidden_size all_heads,
                     relative_positions_embeddings = embeddings,
                     attention_dropout = attention_probs_dropout_prob,
                     dense = Linear_init initializer ''dense'' hidden_size hidden_size,
                     layer_norm = LayerNorm_init initializer ''layer_norm'' hidden_size layer_norm_eps,
                     output_dropout = hidden_dropout_prob\<rparr>))"

definition transpose_for_scores :: "NeZhaAttention \<Rightarrow> real tensor \<Rightarrow> error + real tensor" where
  "transpose_for_scores self x =
     ebind (reshape x (butlast (shape x) @ [num_attention_heads self, attention_head_size self]))
       (\<lambda>x. tensor_transpose x [0, 2, 1, 3])"

definition NeZhaAttention_scores ::
  "NeZhaAttention \<Rightarrow> real tensor \<Rightarrow> real tensor \<Rightarrow> error + (real tensor \<times> real tensor)" where
  "NeZhaAttention_scores self hidden_states attention_mask =
     ebind (Linear_forward (query self) hidden_states) (\<lambda>mixed_query_layer.
     ebind (Linear_forward (key self) hidden_states) (\<lambda>mixed_key_layer.
     ebind (Linear_forward (value' self) hidden_states) (\<lambda>mixed_value_layer.
     ebind (transpose_for_scores self mixed_query_layer) (\<lambda>query_layer.
     ebind (transpose_for_scores self mixed_key_layer) (\<lambda>key_layer.
     ebind (transpose_for_scores self mixed_value_layer) (\<lambda>value_layer.
     ebind (tensor_transpose key_layer [0, 1, 3, 2]) (\<lambda>key_layer_t.
     ebind (matmul query_layer key_layer_t) (\<lambda>attention_scores.
       case shape attention_scores of
         [batch_size, heads, from_seq_length, to_seq_length] \<Rightarrow>
           let relations_keys =
                 slice_to (relative_positions_embeddings self) [to_seq_length, to_seq_length] in
           ebind (tensor_transpose query_layer [2, 0, 1, 3]) (\<lambda>query_layer_t.
           ebind (reshape query_layer_t
                    [from_seq_length, batch_size * heads, attention_head_size self])
             (\<lambda>query_layer_r.
           ebind (tensor_transpose relations_keys [0, 2, 1]) (\<lambda>relations_keys_t.
           ebind (matmul query_layer_r relations_keys_t) (\<lambda>key_position_scores.
           ebind (reshape key_position_scores
                    [from_seq_length, batch_size, heads, from_seq_length])
             (\<lambda>key_position_scores_r.
           ebind (tensor_transpose key_position_scores_r [1, 2, 0, 3])
             (\<lambda>key_position_scores_r_t.
           ebind (elementwise (+) attention_scores key_position_scores_r_t)
             (\<lambda>attention_scores.
             let attention_scores =
                   map_tensor (\<lambda>v. v / sqrt (real (attention_head_size self))) attention_scores
             in ebind (elementwise (+) attention_scores attention_mask) (\<lambda>attention_scores.
                  Inr (value_layer, attention_scores)))))))))
       | _ \<Rightarrow> Inl ValueError))))))))"

definition NeZhaAttention_output ::
  "NeZhaAttention \<Rightarrow> bool \<Rightarrow> (nat \<Rightarrow> bool) \<Rightarrow> real tensor \<Rightarrow> real tensor \<Rightarrow> error + real tensor" where
  "NeZhaAttention_output self training keep hidden_states context_layer =
     ebind (Linear_forward (dense self) context_layer) (\<lambda>projected_context_layer.
       let projected_context_layer_dropout =
             dropout (output_dropout self) training keep projected_context_layer in
       ebind (elementwise (+) hidden_states projected_context_layer_dropout) (\<lambda>residual.
         LayerNorm_forward (layer_norm self) residual))"

definition NeZhaAttention_context ::
  "NeZhaAttention \<Rightarrow> bool \<Rightarrow> (nat \<Rightarrow> bool) \<Rightarrow> real tensor \<Rightarrow> real tensor \<Rightarrow> real tensor
     \<Rightarrow> error + real tensor" where
  "NeZhaAttention_context self training keep hidden_states value_layer attention_probs =
     (case shape attention_probs of
        [batch_size, heads, from_seq_length, to_seq_length] \<Rightarrow>
          ebind (matmul attention_probs value_layer) (\<lambda>context_layer.
          let relations_values =
                slice_to (relative_positions_embeddings self) [to_seq_length, to_seq_length] in
          ebind (tensor_transpose attention_probs [2, 0, 1, 3]) (\<lambda>attention_probs_t.
          ebind (reshape attention_probs_t [from_seq_length, batch_size * heads, to_seq_length])
            (\<lambda>attentions_probs_r.
          ebind (matmul attentions_probs_r relations_values) (\<lambda>value_position_scores.
          ebind (reshape value_position_scores
                   [from_seq_length, batch_size, heads, attention_head_size self])
            (\<lambda>value_position_scores_r.
          ebind (tensor_transpose value_position_scores_r [1, 2, 0, 3])
            (\<lambda>value_position_scores_r_t.
          ebind (elementwise (+) context_layer value_position_scores_r_t) (\<lambda>context_layer.
          ebind (tensor_transpose context_layer [0, 2, 1, 3]) (\<lambda>context_layer.
          ebind (reshape context_layer
                   (butlast (butlast (shape context_layer)) @ [all_head_size self]))
            (\<lambda>context_layer.
            NeZhaAttention_output self training keep hidden_states context_layer)))))))))
      | _ \<Rightarrow> Inl ValueError)"

definition NeZhaAttention_forward ::
  "NeZhaAttention \<Rightarrow> bool \<Rightarrow> (nat \<Rightarrow> nat \<Rightarrow> bool) \<Rightarrow> real tensor \<Rightarrow> real tensor
     \<Rightarrow> error + (real tensor \<times> real tensor)" where
  "NeZhaAttention_forward self training rng hidden_states attention_mask =
     ebind (NeZhaAttention_scores self hidden_states attention_mask)
       (\<lambda>(value_layer, attention_scores).
          let attention_probs = softmax attention_scores;
              attention_probs = dropout (attention_dropout self) training (rng 0) attention_probs
          in ebind (NeZhaAttention_context self training (rng 1) hidden_states value_layer
                      attention_probs)
               (\<lambda>layer_normed_context_layer.
                  Inr (layer_normed_context_layer, attention_scores)))"


lemma returns_bind:
  assumes "returns m s f" "\<And>r. m = Inr r \<Longrightarrow> shape r = s \<Longrightarrow> wf_tensor r \<Longrightarrow>
     (\<And>idx. valid_index s idx \<Longrightarrow> get r idx = f idx) \<Longrightarrow> returns (k r) s' g"
  shows "returns (ebind m k) s' g"
proof -
  from assms(1) obtain r where r: "m = Inr r" "shape r = s" "wf_tensor r"
    "\<And>idx. valid_index s idx \<Longrightarrow> get r idx = f idx"
    by (rule returnsE) (rule that)
  from assms(2)[OF r] show ?thesis by (simp add: r(1))
qed

lemma returns_cong:
  "returns m s f \<Longrightarrow> (\<And>idx. valid_index s idx \<Longrightarrow> f idx = g idx) \<Longrightarrow> returns m s g"
  by (auto simp: returns_def)

lemma mm44: "shape x = [B, H, m, k] \<Longrightarrow> shape y = [B, H, k, n] \<Longrightarrow>
   returns (matmul x y) [B, H, m, n]
     (\<lambda>idx. \<Sum>c<k. get x [idx ! 0, idx ! 1, idx ! 2, c] * get y [idx ! 0, idx ! 1, c, idx ! 3])"
  by (auto simp add: matmul_def broadcast_shapes_def Let_def bidx_def valid_index_Cons valid_index_Nil
       interv_sum_list_conv_sum_set_nat atLeast0LessThan  intro!: returns_tabulate)

lemma mm33: "shape x = [B, m, k] \<Longrightarrow> shape y = [B, k, n] \<Longrightarrow>
   returns (matmul x y) [B, m, n]
     (\<lambda>idx. \<Sum>c<k. get x [idx ! 0, idx ! 1, c] * get y [idx ! 0, c, idx ! 2])"
  by (auto simp add: matmul_def broadcast_shapes_def Let_def bidx_def valid_index_Cons valid_index_Nil
       interv_sum_list_conv_sum_set_nat atLeast0LessThan  intro!: returns_tabulate)

lemma mm32: "shape x = [B, m, k] \<Longrightarrow> shape y = [k, n] \<Longrightarrow>
   returns (matmul x y) [B, m, n] (\<lambda>idx. \<Sum>c<k. get x [idx ! 0, idx ! 1, c] * get y [c, idx ! 2])"
  by (auto simp add: matmul_def broadcast_shapes_def Let_def bidx_def valid_index_Cons valid_index_Nil
       interv_sum_list_conv_sum_set_nat atLeast0LessThan  intro!: returns_tabulate)

lemma el_same4: "shape x = [a, b, c, d] \<Longrightarrow> shape y = [a, b, c, d] \<Longrightarrow>
   returns (elementwise f x y) [a, b, c, d] (\<lambda>idx. f (get x idx) (get y idx))"
  by (auto simp add: elementwise_def broadcast_shapes_def Let_def bidx_def valid_index_Cons valid_index_Nil
        intro!: returns_tabulate)

lemma el_same3: "shape x = [a, b, c] \<Longrightarrow> shape y = [a, b, c] \<Longrightarrow>
   returns (elementwise f x y) [a, b, c] (\<lambda>idx. f (get x idx) (get y idx))"
  by (auto simp add: elementwise_def broadcast_shapes_def Let_def bidx_def valid_index_Cons valid_index_Nil
        intro!: returns_tabulate)

lemma el_mask: "shape x = [B, H, S, S'] \<Longrightarrow> shape y = [B, 1, 1, S'] \<Longrightarrow>
   returns (elementwise f x y) [B, H, S, S'] (\<lambda>idx. f (get x idx) (get y [idx ! 0, 0, 0, idx ! 3]))"
  by (auto simp add: elementwise_def broadcast_shapes_def Let_def bidx_def valid_index_Cons valid_index_Nil
        intro!: returns_tabulate)

lemma el_bias: "shape x = [B, S, A] \<Longrightarrow> shape y = [A] \<Longrightarrow>
   returns (elementwise f x y) [B, S, A] (\<lambda>idx. f (get x idx) (get y [idx ! 2]))"
  by (auto simp add: elementwise_def broadcast_shapes_def Let_def bidx_def valid_index_Cons valid_index_Nil
        intro!: returns_tabulate)

lemma tr_0213: "shape t = [a, b, c, d] \<Longrightarrow>
   returns (tensor_transpose t [0, 2, 1, 3]) [a, c, b, d] (\<lambda>idx. get t [idx ! 0, idx ! 2, idx ! 1, idx ! 3])"
  by (auto simp add: tensor_transpose_def index_of_def upt_4 valid_index_Cons valid_index_Nil intro!: returns_tabulate)

lemma tr_0132: "shape t = [a, b, c, d] \<Longrightarrow>
   returns (tensor_transpose t [0, 1, 3, 2]) [a, b, d, c] (\<lambda>idx. get t [idx ! 0, idx ! 1, idx ! 3, idx ! 2])"
  by (auto simp add: tensor_transpose_def index_of_def upt_4 valid_index_Cons valid_index_Nil intro!: returns_tabulate)

lemma tr_2013: "shape t = [a, b, c, d] \<Longrightarrow>
   returns (tensor_transpose t [2, 0, 1, 3]) [c, a, b, d] (\<lambda>idx. get t [idx ! 1, idx ! 2, idx ! 0, idx ! 3])"
  by (auto simp add: tensor_transpose_def index_of_def upt_4 valid_index_Cons valid_index_Nil intro!: returns_tabulate)

lemma tr_1203: "shape t = [a, b, c, d] \<Longrightarrow>
   returns (tensor_transpose t [1, 2, 0, 3]) [b, c, a, d] (\<lambda>idx. get t [idx ! 2, idx ! 0, idx ! 1, idx ! 3])"
  by (auto simp add: tensor_transpose_def index_of_def upt_4 valid_index_Cons valid_index_Nil intro!: returns_tabulate)

lemma tr_021: "shape t = [a, b, c] \<Longrightarrow>
   returns (tensor_transpose t [0, 2, 1]) [a, c, b] (\<lambda>idx. get t [idx ! 0, idx ! 2, idx ! 1])"
  by (auto simp add: tensor_transpose_def index_of_def upt_3 valid_index_Cons valid_index_Nil intro!: returns_tabulate)

lemma returns_Linear:
  assumes "shape x = [B, S, n_in]" "shape (weight l) = [n_in, n_out]" "shape (bias l) = [n_out]"
  shows "returns (Linear_forward l x) [B, S, n_out]
     (\<lambda>idx. (\<Sum>c<n_in. get x [idx ! 0, idx ! 1, c] * get (weight l) [c, idx ! 2]) + get (bias l) [idx ! 2])"
  unfolding Linear_forward_def
proof (rule returns_bind[OF mm32[OF assms(1,2)]])
  fix r assume r: "shape r = [B, S, n_out]"
    "\<And>idx. valid_index [B, S, n_out] idx \<Longrightarrow>
       get r idx = (\<Sum>c<n_in. get x [idx ! 0, idx ! 1, c] * get (weight l) [c, idx ! 2])"
  show "returns (elementwise (+) r (bias l)) [B, S, n_out]
     (\<lambda>idx. (\<Sum>c<n_in. get x [idx ! 0, idx ! 1, c] * get (weight l) [c, idx ! 2]) + get (bias l) [idx ! 2])"
    by (rule returns_cong[OF el_bias[OF r(1) assms(3)]]) (simp add: r(2))
qed

lemma lin_index: "b < B \<Longrightarrow> h < H \<Longrightarrow> b * H + h < B * (H::nat)"
proof -
  assume "b < B" "h < H"
  then have "b * H + h < b * H + H" by simp
  also have "\<dots> = Suc b * H" by simp
  also have "\<dots> \<le> B * H" using \<open>b < B\<close> by (intro mult_le_mono1) simp
  finally show ?thesis .
qed

lemma returns_transpose_for_scores:
  assumes "shape x = [B, S, num_attention_heads self * attention_head_size self]" "wf_tensor x"
  shows "returns (transpose_for_scores self x)
           [B, num_attention_heads self, S, attention_head_size self]
           (\<lambda>idx. get x [idx ! 0, idx ! 2, idx ! 1 * attention_head_size self + idx ! 3])"
proof -
  define H where "H = num_attention_heads self"
  define d where "d = attention_head_size self"
  have sx: "shape x = [B, S, H * d]" using assms(1) by (simp add: H_def d_def)
  have s: "butlast (shape x) @ [H, d] = [B, S, H, d]" by (simp add: sx)
  have rs: "returns (reshape x [B, S, H, d]) [B, S, H, d] (\<lambda>idx. data x ! ravel [B, S, H, d] idx)"
    by (rule returns_reshape[OF assms(2)]) (simp add: sx)
  have "returns (ebind (reshape x [B, S, H, d]) (\<lambda>x. tensor_transpose x [0, 2, 1, 3]))
          [B, H, S, d] (\<lambda>idx. get x [idx ! 0, idx ! 2, idx ! 1 * d + idx ! 3])"
  proof (rule returns_bind[OF rs])
    fix r assume r: "shape r = [B, S, H, d]"
      "\<And>idx. valid_index [B, S, H, d] idx \<Longrightarrow> get r idx = data x ! ravel [B, S, H, d] idx"
    show "returns (tensor_transpose r [0, 2, 1, 3]) [B, H, S, d]
            (\<lambda>idx. get x [idx ! 0, idx ! 2, idx ! 1 * d + idx ! 3])"
    proof (rule returns_cong[OF tr_0213[OF r(1)]])
      fix idx assume "valid_index [B, H, S, d] idx"
      then obtain b h i k where idx: "idx = [b, h, i, k]" "b < B" "h < H" "i < S" "k < d"
        by (auto simp: valid_index_Cons valid_index_Nil)
      have "get r [b, i, h, k] = data x ! ravel [B, S, H, d] [b, i, h, k]"
        using idx by (simp add: r(2))
      also have "\<dots> = get x [b, i, h * d + k]"
        by (simp add: get_def sx algebra_simps)
      finally show "get r [idx ! 0, idx ! 2, idx ! 1, idx ! 3] =
          get x [idx ! 0, idx ! 2, idx ! 1 * d + idx ! 3]"
        by (simp add: idx)
    qed
  qed
  then show ?thesis
    unfolding transpose_for_scores_def H_def[symmetric] d_def[symmetric] s .
qed


definition attention_shapes :: "NeZhaAttention \<Rightarrow> nat \<Rightarrow> nat \<Rightarrow> bool" where
  "attention_shapes self hidden_size table_length =
     (all_head_size self = num_attention_heads self * attention_head_size self \<and>
      all_head_size self = hidden_size \<and>
      shape (weight (query self)) = [hidden_size, all_head_size self] \<and>
      shape (bias (query self)) = [all_head_size self] \<and>
      shape (weight (key self)) = [hidden_size, all_head_size self] \<and>
      shape (bias (key self)) = [all_head_size self] \<and>
      shape (weight (value' self)) = [hidden_size, all_head_size self] \<and>
      shape (bias (value' self)) = [all_head_size self] \<and>
      shape (weight (dense self)) = [hidden_size, hidden_size] \<and>
      shape (bias (dense self)) = [hidden_size] \<and>
      shape (ln_weight (layer_norm self)) = [hidden_size] \<and>
      shape (ln_bias (layer_norm self)) = [hidden_size] \<and>
      shape (relative_positions_embeddings self) =
        [table_length, table_length, attention_head_size self])"

lemma shape_slice_to3:
  "shape x = [T, T', d] \<Longrightarrow> shape (slice_to x [S, S']) = [min S T, min S' T', d]"
  by (simp add: slice_to_def)

lemma get_slice_to3:
  "shape x = [T, T', d] \<Longrightarrow> i < min S T \<Longrightarrow> j < min S' T' \<Longrightarrow> c < d \<Longrightarrow>
     get (slice_to x [S, S']) [i, j, c] = get x [i, j, c]"
  by (simp add: slice_to_def get_tabulate)

lemma scores_returns:
  assumes sh: "attention_shapes self hid T"
    and hs: "shape hs = [B, S, hid]"
    and amask: "shape amask = [B, 1, 1, S]"
    and ST: "S \<le> T"
  obtains mq mk mv value_layer scores where
    "Linear_forward (query self) hs = Inr mq"
    "Linear_forward (key self) hs = Inr mk"
    "Linear_forward (value' self) hs = Inr mv"
    "transpose_for_scores self mv = Inr value_layer"
    "NeZhaAttention_scores self hs amask = Inr (value_layer, scores)"
    "shape scores = [B, num_attention_heads self, S, S]" "wf_tensor scores"
    "shape value_layer = [B, num_attention_heads self, S, attention_head_size self]"
    "\<And>b h i k. b < B \<Longrightarrow> h < num_attention_heads self \<Longrightarrow> i < S \<Longrightarrow>
        k < attention_head_size self \<Longrightarrow>
        get value_layer [b, h, i, k] = get mv [b, i, h * attention_head_size self + k]"
    "\<And>b h i j. b < B \<Longrightarrow> h < num_attention_heads self \<Longrightarrow> i < S \<Longrightarrow> j < S \<Longrightarrow>
        get scores [b, h, i, j] =
          ((\<Sum>k<attention_head_size self.
               get mq [b, i, h * attention_head_size self + k] *
               get mk [b, j, h * attention_head_size self + k]) +
           (\<Sum>k<attention_head_size self.
               get mq [b, i, h * attention_head_size self + k] *
               get (relative_positions_embeddings self) [i, j, k]))
          / sqrt (real (attention_head_size self))
          + get amask [b, 0, 0, j]"
proof -
  define H where "H = num_attention_heads self"
  define d where "d = attention_head_size self"
  define R where "R = relative_positions_embeddings self"
  from sh have ah: "all_head_size self = H * d" "hid = H * d"
    and wq: "shape (weight (query self)) = [hid, H * d]" "shape (bias (query self)) = [H * d]"
    and wk: "shape (weight (key self)) = [hid, H * d]" "shape (bias (key self)) = [H * d]"
    and wv: "shape (weight (value' self)) = [hid, H * d]" "shape (bias (value' self)) = [H * d]"
    and sR: "shape R = [T, T, d]"
    by (auto simp: attention_shapes_def H_def d_def R_def)
  obtain mq where mq: "Linear_forward (query self) hs = Inr mq" "shape mq = [B, S, H * d]"
    "wf_tensor mq"
    using returns_Linear[OF hs wq] by (auto elim: returnsE)
  obtain mk where mk: "Linear_forward (key self) hs = Inr mk" "shape mk = [B, S, H * d]"
    "wf_tensor mk"
    using returns_Linear[OF hs wk] by (auto elim: returnsE)
  obtain mv where mv: "Linear_forward (value' self) hs = Inr mv" "shape mv = [B, S, H * d]"
    "wf_tensor mv"
    using returns_Linear[OF hs wv] by (auto elim: returnsE)
  note tfs = returns_transpose_for_scores[of _ B S self, folded H_def d_def]
  obtain q where q: "transpose_for_scores self mq = Inr q" "shape q = [B, H, S, d]" "wf_tensor q"
    "\<And>idx. valid_index [B, H, S, d] idx \<Longrightarrow> get q idx = get mq [idx ! 0, idx ! 2, idx ! 1 * d + idx ! 3]"
    by (rule returnsE[OF tfs[OF mq(2,3)]]) (rule that)
  obtain k where k: "transpose_for_scores self mk = Inr k" "shape k = [B, H, S, d]" "wf_tensor k"
    "\<And>idx. valid_index [B, H, S, d] idx \<Longrightarrow> get k idx = get mk [idx ! 0, idx ! 2, idx ! 1 * d + idx ! 3]"
    by (rule returnsE[OF tfs[OF mk(2,3)]]) (rule that)
  obtain v where v: "transpose_for_scores self mv = Inr v" "shape v = [B, H, S, d]" "wf_tensor v"
    "\<And>idx. valid_index [B, H, S, d] idx \<Longrightarrow> get v idx = get mv [idx ! 0, idx ! 2, idx ! 1 * d + idx ! 3]"
    by (rule returnsE[OF tfs[OF mv(2,3)]]) (rule that)
  obtain kt where kt: "tensor_transpose k [0, 1, 3, 2] = Inr kt" "shape kt = [B, H, d, S]"
    "\<And>idx. valid_index [B, H, d, S] idx \<Longrightarrow> get kt idx = get k [idx ! 0, idx ! 1, idx ! 3, idx ! 2]"
    by (rule returnsE[OF tr_0132[OF k(2)]]) (rule that)
  obtain as0 where as0: "matmul q kt = Inr as0" "shape as0 = [B, H, S, S]"
    "\<And>idx. valid_index [B, H, S, S] idx \<Longrightarrow>
       get as0 idx = (\<Sum>c<d. get q [idx ! 0, idx ! 1, idx ! 2, c] * get kt [idx ! 0, idx ! 1, c, idx ! 3])"
    by (rule returnsE[OF mm44[OF q(2) kt(2)]]) (rule that)
  define rk where "rk = slice_to R [S, S]"
  have rk: "shape rk = [S, S, d]"
    using ST by (simp add: rk_def shape_slice_to3[OF sR] min_absorb1)
  have rk_get: "get rk [i, j, c] = get R [i, j, c]" if "i < S" "j < S" "c < d" for i j c
    using that ST by (simp add: rk_def get_slice_to3[OF sR])
  obtain qt where qt: "tensor_transpose q [2, 0, 1, 3] = Inr qt" "shape qt = [S, B, H, d]"
    "wf_tensor qt"
    "\<And>idx. valid_index [S, B, H, d] idx \<Longrightarrow> get qt idx = get q [idx ! 1, idx ! 2, idx ! 0, idx ! 3]"
    by (rule returnsE[OF tr_2013[OF q(2)]]) (rule that)
  have "returns (reshape qt [S, B * H, d]) [S, B * H, d] (\<lambda>idx. data qt ! ravel [S, B * H, d] idx)"
    by (rule returns_reshape[OF qt(3)]) (simp add: qt(2))
  then obtain qr where qr: "reshape qt [S, B * H, d] = Inr qr" "shape qr = [S, B * H, d]"
    "\<And>idx. valid_index [S, B * H, d] idx \<Longrightarrow> get qr idx = data qt ! ravel [S, B * H, d] idx"
    by (rule returnsE) (rule that)
  obtain rkt where rkt: "tensor_transpose rk [0, 2, 1] = Inr rkt" "shape rkt = [S, d, S]"
    "\<And>idx. valid_index [S, d, S] idx \<Longrightarrow> get rkt idx = get rk [idx ! 0, idx ! 2, idx ! 1]"
    by (rule returnsE[OF tr_021[OF rk]]) (rule that)
  obtain kps where kps: "matmul qr rkt = Inr kps" "shape kps = [S, B * H, S]" "wf_tensor kps"
    "\<And>idx. valid_index [S, B * H, S] idx \<Longrightarrow>
       get kps idx = (\<Sum>c<d. get qr [idx ! 0, idx ! 1, c] * get rkt [idx ! 0, c, idx ! 2])"
    by (rule returnsE[OF mm33[OF qr(2) rkt(2)]]) (rule that)
  have "returns (reshape kps [S, B, H, S]) [S, B, H, S] (\<lambda>idx. data kps ! ravel [S, B, H, S] idx)"
    by (rule returns_reshape[OF kps(3)]) (simp add: kps(2))
  then obtain kpsr where kpsr: "reshape kps [S, B, H, S] = Inr kpsr" "shape kpsr = [S, B, H, S]"
    "\<And>idx. valid_index [S, B, H, S] idx \<Longrightarrow> get kpsr idx = data kps ! ravel [S, B, H, S] idx"
    by (rule returnsE) (rule that)
  obtain kpt where kpt: "tensor_transpose kpsr [1, 2, 0, 3] = Inr kpt" "shape kpt = [B, H, S, S]"
    "\<And>idx. valid_index [B, H, S, S] idx \<Longrightarrow> get kpt idx = get kpsr [idx ! 2, idx ! 0, idx ! 1, idx ! 3]"
    by (rule returnsE[OF tr_1203[OF kpsr(2)]]) (rule that)
  obtain as1 where as1: "elementwise (+) as0 kpt = Inr as1" "shape as1 = [B, H, S, S]"
    "wf_tensor as1"
    "\<And>idx. valid_index [B, H, S, S] idx \<Longrightarrow> get as1 idx = get as0 idx + get kpt idx"
    by (rule returnsE[OF el_same4[OF as0(2) kpt(2)]]) (rule that)
  define as2 where "as2 = map_tensor (\<lambda>v. v / sqrt (real d)) as1"
  have as2: "shape as2 = [B, H, S, S]" using as1 by (simp add: as2_def)
  obtain as3 where as3: "elementwise (+) as2 amask = Inr as3" "shape as3 = [B, H, S, S]"
    "wf_tensor as3"
    "\<And>idx. valid_index [B, H, S, S] idx \<Longrightarrow> get as3 idx = get as2 idx + get amask [idx ! 0, 0, 0, idx ! 3]"
    by (rule returnsE[OF el_mask[OF as2 amask]]) (rule that)
  have q_get: "get q [b, h, i, c] = get mq [b, i, h * d + c]"
    if "b < B" "h < H" "i < S" "c < d" for b h i c
    using that by (simp add: q(4))
  have k_get: "get k [b, h, i, c] = get mk [b, i, h * d + c]"
    if "b < B" "h < H" "i < S" "c < d" for b h i c
    using that by (simp add: k(4))
  have v_get: "get v [b, h, i, c] = get mv [b, i, h * d + c]"
    if "b < B" "h < H" "i < S" "c < d" for b h i c
    using that by (simp add: v(4))
  have as0_get: "get as0 [b, h, i, j] = (\<Sum>c<d. get mq [b, i, h * d + c] * get mk [b, j, h * d + c])"
    if "b < B" "h < H" "i < S" "j < S" for b h i j
  proof -
    have "get as0 [b, h, i, j] = (\<Sum>c<d. get q [b, h, i, c] * get kt [b, h, c, j])"
      using that by (simp add: as0(3))
    also have "\<dots> = (\<Sum>c<d. get mq [b, i, h * d + c] * get mk [b, j, h * d + c])"
      using that by (intro sum.cong) (simp_all add: q_get kt(3) k_get)
    finally show ?thesis .
  qed
  have kpt_get: "get kpt [b, h, i, j] = (\<Sum>c<d. get mq [b, i, h * d + c] * get R [i, j, c])"
    if "b < B" "h < H" "i < S" "j < S" for b h i j
  proof -
    have bh: "b * H + h < B * H" using that by (simp add: lin_index)
    have "get kpt [b, h, i, j] = get kpsr [i, b, h, j]"
      using that by (simp add: kpt(3))
    also have "\<dots> = data kps ! ravel [S, B, H, S] [i, b, h, j]"
      using that by (simp add: kpsr(3))
    also have "\<dots> = get kps [i, b * H + h, j]"
      by (simp add: get_def kps(2) algebra_simps)
    also have "\<dots> = (\<Sum>c<d. get qr [i, b * H + h, c] * get rkt [i, c, j])"
      using that bh by (simp add: kps(4))
    also have "\<dots> = (\<Sum>c<d. get mq [b, i, h * d + c] * get R [i, j, c])"
    proof (intro sum.cong refl)
      fix c assume "c \<in> {..<d}"
      then have c: "c < d" by simp
      have "get qr [i, b * H + h, c] = data qt ! ravel [S, B * H, d] [i, b * H + h, c]"
        using that bh c by (simp add: qr(3))
      also have "\<dots> = get qt [i, b, h, c]"
        by (simp add: get_def qt(2) algebra_simps)
      also have "\<dots> = get mq [b, i, h * d + c]"
        using that c by (simp add: qt(4) q_get)
      finally have 1: "get qr [i, b * H + h, c] = get mq [b, i, h * d + c]" .
      have 2: "get rkt [i, c, j] = get R [i, j, c]"
        using that c by (simp add: rkt(3) rk_get)
      show "get qr [i, b * H + h, c] * get rkt [i, c, j] = get mq [b, i, h * d + c] * get R [i, j, c]"
        by (simp only: 1 2)
    qed
    finally show ?thesis .
  qed
  have as3_get: "get as3 [b, h, i, j] =
      ((\<Sum>c<d. get mq [b, i, h * d + c] * get mk [b, j, h * d + c]) +
       (\<Sum>c<d. get mq [b, i, h * d + c] * get R [i, j, c])) / sqrt (real d) + get amask [b, 0, 0, j]"
    if "b < B" "h < H" "i < S" "j < S" for b h i j
  proof -
    have "get as3 [b, h, i, j] = get as2 [b, h, i, j] + get amask [b, 0, 0, j]"
      using that by (simp add: as3(4))
    also have "get as2 [b, h, i, j] = get as1 [b, h, i, j] / sqrt (real d)"
      using that as1 by (simp add: as2_def get_map_tensor)
    also have "get as1 [b, h, i, j] = get as0 [b, h, i, j] + get kpt [b, h, i, j]"
      using that by (simp add: as1(4))
    finally show ?thesis using that by (simp add: as0_get kpt_get)
  qed
  have fin: "NeZhaAttention_scores self hs amask = Inr (v, as3)"
    unfolding NeZhaAttention_scores_def
    by (simp only: mq(1) mk(1) mv(1) q(1) k(1) v(1) kt(1) as0(1) as0(2) ebind_Inr list.case
          Let_def R_def[symmetric] rk_def[symmetric] d_def[symmetric] qt(1) qr(1) rkt(1) kps(1)
          kpsr(1) kpt(1) as1(1) as2_def[symmetric] as3(1))
  from mq(1) mk(1) mv(1) v(1) fin as3(2,3) v(2) v_get as3_get show ?thesis
    unfolding H_def d_def R_def by (rule that)
qed


lemma shape_dropout [simp]: "shape (dropout p training keep x) = shape x"
  by (simp add: dropout_def)

lemma wf_dropout [simp]: "wf_tensor (dropout p training keep x) = wf_tensor x"
  by (simp add: dropout_def wf_tensor_def map_tensor_def)

lemma dropout_eval [simp]: "dropout p False keep x = x"
  by (simp add: dropout_def)

lemma shape_softmax [simp]: "shape (softmax x) = shape x"
  by (simp add: softmax_def)

lemma wf_softmax [simp]: "wf_tensor (softmax x)"
  by (simp add: softmax_def)

lemma get_softmax4:
  "shape x = [B, H, S, S'] \<Longrightarrow> b < B \<Longrightarrow> h < H \<Longrightarrow> i < S \<Longrightarrow> j < S' \<Longrightarrow>
     get (softmax x) [b, h, i, j] = exp (get x [b, h, i, j]) / (\<Sum>c<S'. exp (get x [b, h, i, c]))"
  by (simp add: softmax_def get_tabulate interv_sum_list_conv_sum_set_nat atLeast0LessThan)

lemma returns_LayerNorm:
  assumes "shape x = [B, S, n]" "shape (ln_weight l) = [n]" "shape (ln_bias l) = [n]"
  shows "\<exists>r. LayerNorm_forward l x = Inr r \<and> shape r = [B, S, n] \<and> wf_tensor r"
  using assms by (simp add: LayerNorm_forward_def)

lemma NeZhaAttention_output_returns:
  assumes sh: "attention_shapes self hid T"
    and hs: "shape hs = [B, S, hid]"
    and cl: "shape context_layer = [B, S, hid]"
  shows "\<exists>r. NeZhaAttention_output self training keep hs context_layer = Inr r \<and>
     shape r = [B, S, hid] \<and> wf_tensor r"
proof -
  from sh have wd: "shape (weight (dense self)) = [hid, hid]" "shape (bias (dense self)) = [hid]"
    and ln: "shape (ln_weight (layer_norm self)) = [hid]" "shape (ln_bias (layer_norm self)) = [hid]"
    by (auto simp: attention_shapes_def)
  obtain p where p: "Linear_forward (dense self) context_layer = Inr p" "shape p = [B, S, hid]"
    using returns_Linear[OF cl wd] by (auto elim: returnsE)
  define pd where "pd = dropout (output_dropout self) training keep p"
  have pd: "shape pd = [B, S, hid]" by (simp add: pd_def p)
  obtain res where res: "elementwise (+) hs pd = Inr res" "shape res = [B, S, hid]"
    using el_same3[OF hs pd, of "(+)"] by (auto elim: returnsE)
  from returns_LayerNorm[OF res(2) ln] obtain r where
    r: "LayerNorm_forward (layer_norm self) res = Inr r" "shape r = [B, S, hid]" "wf_tensor r"
    by blast
  have "NeZhaAttention_output self training keep hs context_layer = Inr r"
    unfolding NeZhaAttention_output_def
    by (simp only: p(1) ebind_Inr Let_def pd_def[symmetric] res(1) r(1))
  with r show ?thesis by blast
qed

lemma context_returns:
  assumes sh: "attention_shapes self hid T"
    and pr: "shape probs = [B, num_attention_heads self, S, S]"
    and vl: "shape value_layer = [B, num_attention_heads self, S, attention_head_size self]"
    and ST: "S \<le> T"
  obtains merged where
    "NeZhaAttention_context self training keep hs value_layer probs =
       NeZhaAttention_output self training keep hs merged"
    "shape merged = [B, S, hid]" "wf_tensor merged"
    "\<And>b i h c. b < B \<Longrightarrow> i < S \<Longrightarrow> h < num_attention_heads self \<Longrightarrow>
        c < attention_head_size self \<Longrightarrow>
        get merged [b, i, h * attention_head_size self + c] =
          (\<Sum>j<S. get probs [b, h, i, j] * get value_layer [b, h, j, c]) +
          (\<Sum>j<S. get probs [b, h, i, j] * get (relative_positions_embeddings self) [i, j, c])"
proof -
  define H where "H = num_attention_heads self"
  define d where "d = attention_head_size self"
  define R where "R = relative_positions_embeddings self"
  from sh have ah: "all_head_size self = H * d" "hid = H * d"
    and sR: "shape R = [T, T, d]"
    by (auto simp: attention_shapes_def H_def d_def R_def)
  note pr = pr[folded H_def] and vl = vl[folded H_def d_def]
  obtain ctx where ctx: "matmul probs value_layer = Inr ctx" "shape ctx = [B, H, S, d]"
    "\<And>idx. valid_index [B, H, S, d] idx \<Longrightarrow>
       get ctx idx = (\<Sum>j<S. get probs [idx ! 0, idx ! 1, idx ! 2, j] *
                              get value_layer [idx ! 0, idx ! 1, j, idx ! 3])"
    by (rule returnsE[OF mm44[OF pr vl]]) (rule that)
  define rv where "rv = slice_to R [S, S]"
  have rv: "shape rv = [S, S, d]"
    using ST by (simp add: rv_def shape_slice_to3[OF sR] min_absorb1)
  have rv_get: "get rv [i, j, c] = get R [i, j, c]" if "i < S" "j < S" "c < d" for i j c
    using that ST by (simp add: rv_def get_slice_to3[OF sR])
  obtain pt where pt: "tensor_transpose probs [2, 0, 1, 3] = Inr pt" "shape pt = [S, B, H, S]"
    "wf_tensor pt"
    "\<And>idx. valid_index [S, B, H, S] idx \<Longrightarrow> get pt idx = get probs [idx ! 1, idx ! 2, idx ! 0, idx ! 3]"
    by (rule returnsE[OF tr_2013[OF pr]]) (rule that)
  have "returns (reshape pt [S, B * H, S]) [S, B * H, S] (\<lambda>idx. data pt ! ravel [S, B * H, S] idx)"
    by (rule returns_reshape[OF pt(3)]) (simp add: pt(2))
  then obtain prr where prr: "reshape pt [S, B * H, S] = Inr prr" "shape prr = [S, B * H, S]"
    "\<And>idx. valid_index [S, B * H, S] idx \<Longrightarrow> get prr idx = data pt ! ravel [S, B * H, S] idx"
    by (rule returnsE) (rule that)
  obtain vps where vps: "matmul prr rv = Inr vps" "shape vps = [S, B * H, d]" "wf_tensor vps"
    "\<And>idx. valid_index [S, B * H, d] idx \<Longrightarrow>
       get vps idx = (\<Sum>j<S. get prr [idx ! 0, idx ! 1, j] * get rv [idx ! 0, j, idx ! 2])"
    by (rule returnsE[OF mm33[OF prr(2) rv]]) (rule that)
  have "returns (reshape vps [S, B, H, d]) [S, B, H, d] (\<lambda>idx. data vps ! ravel [S, B, H, d] idx)"
    by (rule returns_reshape[OF vps(3)]) (simp add: vps(2))
  then obtain vpr where vpr: "reshape vps [S, B, H, d] = Inr vpr" "shape vpr = [S, B, H, d]"
    "\<And>idx. valid_index [S, B, H, d] idx \<Longrightarrow> get vpr idx = data vps ! ravel [S, B, H, d] idx"
    by (rule returnsE) (rule that)
  obtain vpt where vpt: "tensor_transpose vpr [1, 2, 0, 3] = Inr vpt" "shape vpt = [B, H, S, d]"
    "\<And>idx. valid_index [B, H, S, d] idx \<Longrightarrow> get vpt idx = get vpr [idx ! 2, idx ! 0, idx ! 1, idx ! 3]"
    by (rule returnsE[OF tr_1203[OF vpr(2)]]) (rule that)
  obtain c1 where c1: "elementwise (+) ctx vpt = Inr c1" "shape c1 = [B, H, S, d]"
    "\<And>idx. valid_index [B, H, S, d] idx \<Longrightarrow> get c1 idx = get ctx idx + get vpt idx"
    by (rule returnsE[OF el_same4[OF ctx(2) vpt(2)]]) (rule that)
  obtain c2 where c2: "tensor_transpose c1 [0, 2, 1, 3] = Inr c2" "shape c2 = [B, S, H, d]"
    "wf_tensor c2"
    "\<And>idx. valid_index [B, S, H, d] idx \<Longrightarrow> get c2 idx = get c1 [idx ! 0, idx ! 2, idx ! 1, idx ! 3]"
    by (rule returnsE[OF tr_0213[OF c1(2)]]) (rule that)
  have s: "butlast (butlast (shape c2)) @ [all_head_size self] = [B, S, H * d]"
    by (simp add: c2(2) ah)
  have "returns (reshape c2 [B, S, H * d]) [B, S, H * d] (\<lambda>idx. data c2 ! ravel [B, S, H * d] idx)"
    by (rule returns_reshape[OF c2(3)]) (simp add: c2(2))
  then obtain merged where merged: "reshape c2 [B, S, H * d] = Inr merged"
    "shape merged = [B, S, H * d]" "wf_tensor merged"
    "\<And>idx. valid_index [B, S, H * d] idx \<Longrightarrow> get merged idx = data c2 ! ravel [B, S, H * d] idx"
    by (rule returnsE) (rule that)
  have vpt_get: "get vpt [b, h, i, c] = (\<Sum>j<S. get probs [b, h, i, j] * get R [i, j, c])"
    if "b < B" "h < H" "i < S" "c < d" for b h i c
  proof -
    have bh: "b * H + h < B * H" using that by (simp add: lin_index)
    have "get vpt [b, h, i, c] = get vpr [i, b, h, c]"
      using that by (simp add: vpt(3))
    also have "\<dots> = data vps ! ravel [S, B, H, d] [i, b, h, c]"
      using that by (simp add: vpr(3))
    also have "\<dots> = get vps [i, b * H + h, c]"
      by (simp add: get_def vps(2) algebra_simps)
    also have "\<dots> = (\<Sum>j<S. get prr [i, b * H + h, j] * get rv [i, j, c])"
      using that bh by (simp add: vps(4))
    also have "\<dots> = (\<Sum>j<S. get probs [b, h, i, j] * get R [i, j, c])"
    proof (intro sum.cong refl)
      fix j assume "j \<in> {..<S}"
      then have j: "j < S" by simp
      have "get prr [i, b * H + h, j] = data pt ! ravel [S, B * H, S] [i, b * H + h, j]"
        using that bh j by (simp add: prr(3))
      also have "\<dots> = get pt [i, b, h, j]"
        by (simp add: get_def pt(2) algebra_simps)
      also have "\<dots> = get probs [b, h, i, j]"
        using that j by (simp add: pt(4))
      finally have 1: "get prr [i, b * H + h, j] = get probs [b, h, i, j]" .
      have 2: "get rv [i, j, c] = get R [i, j, c]"
        using that j by (simp add: rv_get)
      show "get prr [i, b * H + h, j] * get rv [i, j, c] = get probs [b, h, i, j] * get R [i, j, c]"
        by (simp only: 1 2)
    qed
    finally show ?thesis .
  qed
  have merged_get: "get merged [b, i, h * d + c] =
      (\<Sum>j<S. get probs [b, h, i, j] * get value_layer [b, h, j, c]) +
      (\<Sum>j<S. get probs [b, h, i, j] * get R [i, j, c])"
    if "b < B" "i < S" "h < H" "c < d" for b i h c
  proof -
    have hc: "h * d + c < H * d" using that by (simp add: lin_index)
    have "get merged [b, i, h * d + c] = data c2 ! ravel [B, S, H * d] [b, i, h * d + c]"
      using that hc by (simp add: merged(4))
    also have "\<dots> = get c2 [b, i, h, c]"
      by (simp add: get_def c2(2) algebra_simps)
    also have "\<dots> = get c1 [b, h, i, c]"
      using that by (simp add: c2(4))
    also have "\<dots> = get ctx [b, h, i, c] + get vpt [b, h, i, c]"
      using that by (simp add: c1(3))
    finally show ?thesis using that by (simp add: ctx(3) vpt_get)
  qed
  have fin: "NeZhaAttention_context self training keep hs value_layer probs =
       NeZhaAttention_output self training keep hs merged"
    unfolding NeZhaAttention_context_def
    by (simp only: pr list.case ctx(1) ebind_Inr Let_def R_def[symmetric] rv_def[symmetric]
          d_def[symmetric] pt(1) prr(1) vps(1) vpr(1) vpt(1) c1(1) c2(1) s merged(1))
  from fin merged(2)[folded ah(2)] merged(3) merged_get show ?thesis
    unfolding H_def d_def R_def by (rule that)
qed

subsection \<open>Construction\<close>

lemma shape_Linear_init [simp]:
  "(\<And>name s. shape (initializer name s) = s) \<Longrightarrow>
     shape (weight (Linear_init initializer name a b)) = [a, b] \<and>
     shape (bias (Linear_init initializer name a b)) = [b]"
  by (simp add: Linear_init_def)

lemma NeZhaAttention_init_Inr:
  assumes "heads \<noteq> 0" "hidden_size mod heads = 0"
  shows "NeZhaAttention_init initializer hidden_size heads hdp adp mrp eps =
     Inr \<lparr>num_attention_heads = heads,
          attention_head_size = hidden_size div heads,
          all_head_size = heads * (hidden_size div heads),
          query = Linear_init initializer ''query'' hidden_size (heads * (hidden_size div heads)),
          key = Linear_init initializer ''key'' hidden_size (heads * (hidden_size div heads)),
          value' = Linear_init initializer ''value'' hidden_size (heads * (hidden_size div heads)),
          relative_positions_embeddings =
            tabulate [512, 512, hidden_size div heads]
              (\<lambda>idx. sinusoid (hidden_size div heads) (bucket mrp (idx ! 0) (idx ! 1)) (idx ! 2)),
          attention_dropout = adp,
          dense = Linear_init initializer ''dense'' hidden_size hidden_size,
          layer_norm = LayerNorm_init initializer ''layer_norm'' hidden_size eps,
          output_dropout = hdp\<rparr>"
  using assms by (simp add: NeZhaAttention_init_def generate_eq Let_def)


subsection \<open>The forward pass: where it succeeds and where it raises\<close>

lemma matmul_batch_mismatch:
  "shape x = [S, m, k] \<Longrightarrow> shape y = [T, k, n] \<Longrightarrow> S \<noteq> T \<Longrightarrow> S \<noteq> 1 \<Longrightarrow> T \<noteq> 1 \<Longrightarrow>
     matmul x y = Inl ShapeError"
  by (simp add: matmul_def broadcast_shapes_def)

lemma scores_fails:
  assumes sh: "attention_shapes self hid T"
    and hs: "shape hs = [B, S, hid]"
    and ST: "T < S" "1 < T"
  shows "NeZhaAttention_scores self hs amask = Inl ShapeError"
proof -
  define H where "H = num_attention_heads self"
  define d where "d = attention_head_size self"
  define R where "R = relative_positions_embeddings self"
  from sh have ah: "all_head_size self = H * d" "hid = H * d"
    and wq: "shape (weight (query self)) = [hid, H * d]" "shape (bias (query self)) = [H * d]"
    and wk: "shape (weight (key self)) = [hid, H * d]" "shape (bias (key self)) = [H * d]"
    and wv: "shape (weight (value' self)) = [hid, H * d]" "shape (bias (value' self)) = [H * d]"
    and sR: "shape R = [T, T, d]"
    by (auto simp: attention_shapes_def H_def d_def R_def)
  obtain mq where mq: "Linear_forward (query self) hs = Inr mq" "shape mq = [B, S, H * d]"
    "wf_tensor mq"
    using returns_Linear[OF hs wq] by (auto elim: returnsE)
  obtain mk where mk: "Linear_forward (key self) hs = Inr mk" "shape mk = [B, S, H * d]"
    "wf_tensor mk"
    using returns_Linear[OF hs wk] by (auto elim: returnsE)
  obtain mv where mv: "Linear_forward (value' self) hs = Inr mv" "shape mv = [B, S, H * d]"
    "wf_tensor mv"
    using returns_Linear[OF hs wv] by (auto elim: returnsE)
  note tfs = returns_transpose_for_scores[of _ B S self, folded H_def d_def]
  obtain q where q: "transpose_for_scores self mq = Inr q" "shape q = [B, H, S, d]"
    using tfs[OF mq(2,3)] by (auto elim: returnsE)
  obtain k where k: "transpose_for_scores self mk = Inr k" "shape k = [B, H, S, d]"
    using tfs[OF mk(2,3)] by (auto elim: returnsE)
  obtain v where v: "transpose_for_scores self mv = Inr v" "shape v = [B, H, S, d]"
    using tfs[OF mv(2,3)] by (auto elim: returnsE)
  obtain kt where kt: "tensor_transpose k [0, 1, 3, 2] = Inr kt" "shape kt = [B, H, d, S]"
    using tr_0132[OF k(2)] by (auto elim: returnsE)
  obtain as0 where as0: "matmul q kt = Inr as0" "shape as0 = [B, H, S, S]"
    using mm44[OF q(2) kt(2)] by (auto elim: returnsE)
  define rk where "rk = slice_to R [S, S]"
  have rk: "shape rk = [T, T, d]"
    using ST by (simp add: rk_def shape_slice_to3[OF sR] min_absorb2)
  obtain qt where qt: "tensor_transpose q [2, 0, 1, 3] = Inr qt" "shape qt = [S, B, H, d]"
    "wf_tensor qt"
    using tr_2013[OF q(2)] by (auto elim: returnsE)
  have "returns (reshape qt [S, B * H, d]) [S, B * H, d] (\<lambda>idx. data qt ! ravel [S, B * H, d] idx)"
    by (rule returns_reshape[OF qt(3)]) (simp add: qt(2))
  then obtain qr where qr: "reshape qt [S, B * H, d] = Inr qr" "shape qr = [S, B * H, d]"
    by (auto elim: returnsE)
  obtain rkt where rkt: "tensor_transpose rk [0, 2, 1] = Inr rkt" "shape rkt = [T, d, T]"
    using tr_021[OF rk] by (auto elim: returnsE)
  have fail: "matmul qr rkt = Inl ShapeError"
    using ST by (intro matmul_batch_mismatch[OF qr(2) rkt(2)]) simp_all
  show ?thesis
    unfolding NeZhaAttention_scores_def
    by (simp only: mq(1) mk(1) mv(1) q(1) k(1) v(1) kt(1) as0(1) as0(2) ebind_Inr list.case
          Let_def R_def[symmetric] rk_def[symmetric] d_def[symmetric] qt(1) qr(1) rkt(1) fail
          ebind_Inl)
qed

lemma attention_shapes_init:
  assumes "NeZhaAttention_init initializer hidden_size heads hdp adp mrp eps = Inr self"
    and "\<And>name s. shape (initializer name s) = s"
  shows "attention_shapes self hidden_size 512" "num_attention_heads self = heads"
    "generate_relative_positions_embeddings 512 (attention_head_size self) mrp =
       Inr (relative_positions_embeddings self)"
proof -
  have ok: "heads \<noteq> 0" "hidden_size mod heads = 0"
    using assms(1) by (auto simp: NeZhaAttention_init_def split: if_splits)
  then have m: "heads * (hidden_size div heads) = hidden_size" by auto
  note e = assms(1)[unfolded NeZhaAttention_init_Inr[OF ok]]
  from e show "num_attention_heads self = heads" by auto
  from e show "generate_relative_positions_embeddings 512 (attention_head_size self) mrp =
       Inr (relative_positions_embeddings self)"
    by (auto simp: generate_eq)
  from e show "attention_shapes self hidden_size 512"
    using assms(2) m
    by (auto simp: attention_shapes_def Linear_init_def LayerNorm_init_def)
qed

lemma forward_returns:
  assumes sh: "attention_shapes self hid T"
    and hs: "shape hs = [B, S, hid]"
    and am: "shape amask = [B, 1, 1, S]"
    and ST: "S \<le> T"
  shows "\<exists>out value_layer scores.
     NeZhaAttention_scores self hs amask = Inr (value_layer, scores) \<and>
     NeZhaAttention_context self training (rng 1) hs value_layer
        (dropout (attention_dropout self) training (rng 0) (softmax scores)) = Inr out \<and>
     NeZhaAttention_forward self training rng hs amask = Inr (out, scores) \<and>
     shape out = [B, S, hid] \<and> shape scores = [B, num_attention_heads self, S, S]"
proof -
  obtain mq mk mv value_layer scores where
    sc: "NeZhaAttention_scores self hs amask = Inr (value_layer, scores)"
    "shape scores = [B, num_attention_heads self, S, S]"
    "shape value_layer = [B, num_attention_heads self, S, attention_head_size self]"
    by (rule scores_returns[OF sh hs am ST]) blast
  define probs where "probs = dropout (attention_dropout self) training (rng 0) (softmax scores)"
  have pr: "shape probs = [B, num_attention_heads self, S, S]"
    by (simp add: probs_def sc(2))
  obtain merged where merged:
    "NeZhaAttention_context self training (rng 1) hs value_layer probs =
       NeZhaAttention_output self training (rng 1) hs merged"
    "shape merged = [B, S, hid]"
    by (rule context_returns[OF sh pr sc(3) ST]) blast
  from NeZhaAttention_output_returns[OF sh hs merged(2)] obtain out where
    out: "NeZhaAttention_output self training (rng 1) hs merged = Inr out" "shape out = [B, S, hid]"
    by blast
  have "NeZhaAttention_forward self training rng hs amask = Inr (out, scores)"
    unfolding NeZhaAttention_forward_def
    by (simp only: sc(1) ebind_Inr prod.case Let_def probs_def[symmetric] merged(1) out(1))
  with sc merged out show ?thesis
    by (auto simp: probs_def)
qed


text \<open>
  C2.  On well-shaped inputs no longer than the table, \<^verbatim>\<open>forward\<close> returns as its second value
  the logits \<open>(Q\<cdot>K\<^sup>T + Q\<cdot>R) / sqrt(attention_head_size) + attention_mask\<close>, where \<open>R\<close> is the
  relative-position table (its first rows and columns), taken after the mask is added and
  before the softmax; the attention probabilities handed to dropout and to the value
  aggregation are the softmax of these logits over the last axis.
\<close>

theorem NeZhaAttention_forward_scores_and_probs:
  assumes "attention_shapes self hidden_size table_length"
    and "shape hidden_states = [B, S, hidden_size]"
    and "shape attention_mask = [B, 1, 1, S]"
    and "S \<le> table_length"
  shows "\<exists>mixed_query_layer mixed_key_layer query_layer key_layer value_layer attention_scores out.
     Linear_forward (query self) hidden_states = Inr mixed_query_layer \<and>
     Linear_forward (key self) hidden_states = Inr mixed_key_layer \<and>
     transpose_for_scores self mixed_query_layer = Inr query_layer \<and>
     transpose_for_scores self mixed_key_layer = Inr key_layer \<and>
     NeZhaAttention_scores self hidden_states attention_mask = Inr (value_layer, attention_scores) \<and>
     NeZhaAttention_context self training (rng 1) hidden_states value_layer
        (dropout (attention_dropout self) training (rng 0) (softmax attention_scores)) = Inr out \<and>
     NeZhaAttention_forward self training rng hidden_states attention_mask =
        Inr (out, attention_scores) \<and>
     shape attention_scores = [B, num_attention_heads self, S, S] \<and>
     (\<forall>b h i j. b < B \<longrightarrow> h < num_attention_heads self \<longrightarrow> i < S \<longrightarrow> j < S \<longrightarrow>
        get attention_scores [b, h, i, j] =
          ((\<Sum>k<attention_head_size self. get query_layer [b, h, i, k] * get key_layer [b, h, j, k]) +
           (\<Sum>k<attention_head_size self.
               get query_layer [b, h, i, k] * get (relative_positions_embeddings self) [i, j, k]))
          / sqrt (real (attention_head_size self))
          + get attention_mask [b, 0, 0, j] \<and>
        get (softmax attention_scores) [b, h, i, j] =
          exp (get attention_scores [b, h, i, j]) /
            (\<Sum>j'<S. exp (get attention_scores [b, h, i, j'])))"
proof -
  define H where "H = num_attention_heads self"
  define d where "d = attention_head_size self"
  obtain mq mk mv value_layer scores where
    mq: "Linear_forward (query self) hidden_states = Inr mq"
    and mk: "Linear_forward (key self) hidden_states = Inr mk"
    and sc: "NeZhaAttention_scores self hidden_states attention_mask = Inr (value_layer, scores)"
    and ss: "shape scores = [B, H, S, S]"
    and sg: "\<And>b h i j. b < B \<Longrightarrow> h < H \<Longrightarrow> i < S \<Longrightarrow> j < S \<Longrightarrow>
        get scores [b, h, i, j] =
          ((\<Sum>k<d. get mq [b, i, h * d + k] * get mk [b, j, h * d + k]) +
           (\<Sum>k<d. get mq [b, i, h * d + k] * get (relative_positions_embeddings self) [i, j, k]))
          / sqrt (real d) + get attention_mask [b, 0, 0, j]"
    unfolding H_def d_def by (rule scores_returns[OF assms]) blast
  from assms(1) have w: "shape (weight (query self)) = [hidden_size, H * d]"
    "shape (bias (query self)) = [H * d]"
    "shape (weight (key self)) = [hidden_size, H * d]" "shape (bias (key self)) = [H * d]"
    by (auto simp: attention_shapes_def H_def d_def)
  have smq: "shape mq = [B, S, H * d]" "wf_tensor mq"
    using returns_Linear[OF assms(2) w(1,2)] mq by (auto elim!: returnsE)
  have smk: "shape mk = [B, S, H * d]" "wf_tensor mk"
    using returns_Linear[OF assms(2) w(3,4)] mk by (auto elim!: returnsE)
  note tfs = returns_transpose_for_scores[of _ B S self, folded H_def d_def]
  obtain q where q: "transpose_for_scores self mq = Inr q"
    "\<And>idx. valid_index [B, H, S, d] idx \<Longrightarrow> get q idx = get mq [idx ! 0, idx ! 2, idx ! 1 * d + idx ! 3]"
    by (rule returnsE[OF tfs[OF smq]]) blast
  obtain k where k: "transpose_for_scores self mk = Inr k"
    "\<And>idx. valid_index [B, H, S, d] idx \<Longrightarrow> get k idx = get mk [idx ! 0, idx ! 2, idx ! 1 * d + idx ! 3]"
    by (rule returnsE[OF tfs[OF smk]]) blast
  have sg': "get scores [b, h, i, j] =
          ((\<Sum>c<d. get q [b, h, i, c] * get k [b, h, j, c]) +
           (\<Sum>c<d. get q [b, h, i, c] * get (relative_positions_embeddings self) [i, j, c]))
          / sqrt (real d) + get attention_mask [b, 0, 0, j]"
    if "b < B" "h < H" "i < S" "j < S" for b h i j
    using that by (simp add: sg q(2) k(2))
  from forward_returns[OF assms, of training rng] sc obtain out where
    out: "NeZhaAttention_context self training (rng 1) hidden_states value_layer
        (dropout (attention_dropout self) training (rng 0) (softmax scores)) = Inr out"
      "NeZhaAttention_forward self training rng hidden_states attention_mask = Inr (out, scores)"
    by auto
  show ?thesis
    unfolding H_def[symmetric] d_def[symmetric]
    apply (rule exI[of _ mq], rule exI[of _ mk], rule exI[of _ q], rule exI[of _ k],
           rule exI[of _ value_layer], rule exI[of _ scores], rule exI[of _ out])
    using mq mk q(1) k(1) sc out ss sg' get_softmax4[OF ss]
    by simp
qed

text \<open>
  C5.  The table of a constructed NeZhaAttention is the one built for length 512, whatever
  the other hyperparameters are (the constructor has no max_position_embeddings).  A forward
  call on a sequence of length at most 512 is well defined: the slice keeps the first
  \<open>S\<close> rows and columns of the table and the call returns.  A forward call on a longer
  sequence raises: the slice keeps all 512 rows, which the batched product with the
  \<open>S\<close> queries rejects.
\<close>

theorem NeZhaAttention_table_length_512:
  assumes "NeZhaAttention_init initializer hidden_size heads hidden_dropout_prob
             attention_probs_dropout_prob max_relative_position layer_norm_eps = Inr self"
    and "\<And>name s. shape (initializer name s) = s"
    and "shape hidden_states = [B, S, hidden_size]"
    and "shape attention_mask = [B, 1, 1, S]"
  shows "generate_relative_positions_embeddings 512 (attention_head_size self) max_relative_position =
       Inr (relative_positions_embeddings self) \<and>
     shape (relative_positions_embeddings self) = [512, 512, attention_head_size self] \<and>
     (S \<le> 512 \<longrightarrow>
        shape (slice_to (relative_positions_embeddings self) [S, S]) = [S, S, attention_head_size self] \<and>
        (\<exists>out attention_scores.
           NeZhaAttention_forward self training rng hidden_states attention_mask =
             Inr (out, attention_scores) \<and>
           shape out = [B, S, hidden_size] \<and> shape attention_scores = [B, heads, S, S])) \<and>
     (512 < S \<longrightarrow>
        NeZhaAttention_forward self training rng hidden_states attention_mask = Inl ShapeError)"
proof -
  note i = attention_shapes_init[OF assms(1,2)]
  from i(1) have sR: "shape (relative_positions_embeddings self) = [512, 512, attention_head_size self]"
    by (simp add: attention_shapes_def)
  have ok: "S \<le> 512 \<Longrightarrow>
        shape (slice_to (relative_positions_embeddings self) [S, S]) = [S, S, attention_head_size self] \<and>
        (\<exists>out attention_scores.
           NeZhaAttention_forward self training rng hidden_states attention_mask =
             Inr (out, attention_scores) \<and>
           shape out = [B, S, hidden_size] \<and> shape attention_scores = [B, heads, S, S])"
    using forward_returns[OF i(1) assms(3,4), of training rng] i(2)
    by (auto simp: shape_slice_to3[OF sR] min_absorb1)
  have bad: "512 < S \<Longrightarrow>
        NeZhaAttention_forward self training rng hidden_states attention_mask = Inl ShapeError"
    using scores_fails[OF i(1) assms(3), of attention_mask]
    by (simp add: NeZhaAttention_forward_def)
  from i(3) sR ok bad show ?thesis by blast
qed


lemma example_init:
  "\<exists>self. NeZhaAttention_init (\<lambda>name s. full s 0) 2 1 (1/10) (1/10) 1 (1/10^12) = Inr self \<and>
     attention_head_size self = 2 \<and> num_attention_heads self = 1"
  by (simp add: NeZhaAttention_init_Inr)

theorem NeZhaAttention_table_length_512_witness:
  "\<exists>self. NeZhaAttention_init (\<lambda>name s. full s 0) 2 1 (1/10) (1/10) 1 (1/10^12) = Inr self \<and>
     shape (relative_positions_embeddings self) = [512, 512, 2] \<and>
     shape (slice_to (relative_positions_embeddings self) [3, 3]) = [3, 3, 2] \<and>
     (\<exists>out attention_scores.
        NeZhaAttention_forward self False (\<lambda>n k. True) (full [1, 3, 2] 0) (full [1, 1, 1, 3] 0) =
          Inr (out, attention_scores) \<and>
        shape out = [1, 3, 2] \<and> shape attention_scores = [1, 1, 3, 3]) \<and>
     NeZhaAttention_forward self False (\<lambda>n k. True) (full [1, 513, 2] 0) (full [1, 1, 1, 513] 0) =
       Inl ShapeError"
proof -
  from example_init obtain self where
    init: "NeZhaAttention_init (\<lambda>name s. full s 0) 2 1 (1/10) (1/10) 1 (1/10^12) = Inr self"
    and d: "attention_head_size self = 2" by blast
  have ini: "\<And>name s. shape (full s (0::real)) = s" by simp
  have a: "shape (full [1, 3, 2] (0::real)) = [1, 3, 2]"
    and b: "shape (full [1, 1, 1, 3] (0::real)) = [1, 1, 1, 3]"
    and a': "shape (full [1, 513, 2] (0::real)) = [1, 513, 2]"
    and b': "shape (full [1, 1, 1, 513] (0::real)) = [1, 1, 1, 513]"
    by simp_all
  note t1 = NeZhaAttention_table_length_512[OF init ini a b, of False "\<lambda>n k. True"]
  note t2 = NeZhaAttention_table_length_512[OF init ini a' b', of False "\<lambda>n k. True"]
  from t1 t2 d init show ?thesis
    by (intro exI[of _ self]) simp
qed

theorem NeZhaAttention_forward_scores_and_probs_witness:
  "\<exists>self. NeZhaAttention_init (\<lambda>name s. full s 0) 2 1 (1/10) (1/10) 1 (1/10^12) = Inr self \<and>
    (\<exists>query_layer key_layer value_layer attention_scores out.
      NeZhaAttention_scores self (full [1, 3, 2] 0) (full [1, 1, 1, 3] 0) =
        Inr (value_layer, attention_scores) \<and>
      NeZhaAttention_forward self True (\<lambda>n k. True) (full [1, 3, 2] 0) (full [1, 1, 1, 3] 0) =
        Inr (out, attention_scores) \<and>
      shape attention_scores = [1, 1, 3, 3] \<and>
      get attention_scores [0, 0, 1, 2] =
          ((\<Sum>k<2. get query_layer [0, 0, 1, k] * get key_layer [0, 0, 2, k]) +
           (\<Sum>k<2. get query_layer [0, 0, 1, k] * get (relative_positions_embeddings self) [1, 2, k]))
          / sqrt 2 + get (full [1, 1, 1, 3] 0) [0, 0, 0, 2] \<and>
      get (softmax attention_scores) [0, 0, 1, 2] =
          exp (get attention_scores [0, 0, 1, 2]) / (\<Sum>j'<3. exp (get attention_scores [0, 0, 1, j'])))"
proof -
  from example_init obtain self where
    init: "NeZhaAttention_init (\<lambda>name s. full s 0) 2 1 (1/10) (1/10) 1 (1/10^12) = Inr self"
    and d: "attention_head_size self = 2" and h: "num_attention_heads self = 1" by blast
  have ini: "\<And>name s. shape (full s (0::real)) = s" by simp
  have sh: "attention_shapes self 2 512" by (rule attention_shapes_init(1)[OF init ini])
  have a: "shape (full [1, 3, 2] (0::real)) = [1, 3, 2]"
    and b: "shape (full [1, 1, 1, 3] (0::real)) = [1, 1, 1, 3]"
    by simp_all
  have le: "(3::nat) \<le> 512" by simp
  from NeZhaAttention_forward_scores_and_probs[OF sh a b le, of True "\<lambda>n k. True"]
  obtain query_layer key_layer value_layer attention_scores out where
    f: "NeZhaAttention_scores self (full [1, 3, 2] 0) (full [1, 1, 1, 3] 0) =
        Inr (value_layer, attention_scores)"
     "NeZhaAttention_forward self True (\<lambda>n k. True) (full [1, 3, 2] 0) (full [1, 1, 1, 3] 0) =
        Inr (out, attention_scores)"
     "shape attention_scores = [1, num_attention_heads self, 3, 3]"
     and g: "\<forall>b h i j. b < 1 \<longrightarrow> h < num_attention_heads self \<longrightarrow> i < 3 \<longrightarrow> j < 3 \<longrightarrow>
        get attention_scores [b, h, i, j] =
          ((\<Sum>k<attention_head_size self. get query_layer [b, h, i, k] * get key_layer [b, h, j, k]) +
           (\<Sum>k<attention_head_size self.
               get query_layer [b, h, i, k] * get (relative_positions_embeddings self) [i, j, k]))
          / sqrt (real (attention_head_size self))
          + get (full [1, 1, 1, 3] 0) [b, 0, 0, j] \<and>
        get (softmax attention_scores) [b, h, i, j] =
          exp (get attention_scores [b, h, i, j]) /
            (\<Sum>j'<3. exp (get attention_scores [b, h, i, j']))"
    by blast
  from g[rule_format, of 0 0 1 2] have
    "get attention_scores [0, 0, 1, 2] =
          ((\<Sum>k<2. get query_layer [0, 0, 1, k] * get key_layer [0, 0, 2, k]) +
           (\<Sum>k<2. get query_layer [0, 0, 1, k] * get (relative_positions_embeddings self) [1, 2, k]))
          / sqrt 2 + get (full [1, 1, 1, 3] 0) [0, 0, 0, 2] \<and>
      get (softmax attention_scores) [0, 0, 1, 2] =
          exp (get attention_scores [0, 0, 1, 2]) / (\<Sum>j'<3. exp (get attention_scores [0, 0, 1, j']))"
    unfolding d h by simp
  with f init h show ?thesis
    by (intro exI[of _ self] conjI exI[of _ query_layer] exI[of _ key_layer] exI[of _ value_layer]
          exI[of _ attention_scores] exI[of _ out]) simp_all
qed

subsection \<open>Standard scaled dot-product attention\<close>








section \<open>ELECTRA: sampling from the generator and the discriminator's inputs\<close>




lemma broadcast_rev_same: "broadcast_rev s s = Inr s"
  by (induction s) auto

lemma broadcast_shapes_same: "broadcast_shapes s s = Inr s"
  by (simp add: broadcast_shapes_def broadcast_rev_same)

lemma bidx_valid: "valid_index s idx \<Longrightarrow> bidx s idx = idx"
proof -
  assume v: "valid_index s idx"
  then have "map (\<lambda>(n, i). if n = 1 then 0 else i) (zip s idx) = idx"
    by (induction s idx rule: valid_index.induct) auto
  with valid_index_length[OF v] show ?thesis by (simp add: bidx_def)
qed











text \<open>
  \<^verbatim>\<open>update_inputs\<close> and \<^verbatim>\<open>get_discriminator_inputs\<close>; \<^verbatim>\<open>paddle.where\<close> selects elementwise
  between two tensors.
\<close>

definition zeros_like :: "'a tensor \<Rightarrow> 'b::zero tensor" where
  "zeros_like x = full (shape x) 0"

definition ones_like :: "'a tensor \<Rightarrow> 'b::one tensor" where
  "ones_like x = full (shape x) 1"

definition tensor_where :: "bool tensor \<Rightarrow> 'a tensor \<Rightarrow> 'a tensor \<Rightarrow> error + 'a tensor" where
  "tensor_where condition x y =
     ebind (elementwise Pair x y) (\<lambda>xy.
       elementwise (\<lambda>c (a, b). if c then a else b) condition xy)"



lemma shape_zeros_like [simp]: "shape (zeros_like x) = shape x"
  by (simp add: zeros_like_def)

lemma shape_ones_like [simp]: "shape (ones_like x) = shape x"
  by (simp add: ones_like_def)


lemma get_ones_like: "valid_index (shape x) idx \<Longrightarrow> get (ones_like x) idx = 1"
  by (simp add: ones_like_def get_full)









section \<open>ELECTRA: the pretraining criterion\<close>

text \<open>
  A loss is a floating-point scalar: \<open>Some v\<close> is the finite value \<open>v\<close> and \<open>None\<close> stands for
  a NaN or an infinity, which a division by zero produces and which every product and sum
  with it keeps.  \<^verbatim>\<open>CrossEntropyLoss(reduction='none')\<close> ignores the label \<open>-100\<close> (its
  default \<^verbatim>\<open>ignore_index\<close>) and rejects any other label outside the classes;
  \<^verbatim>\<open>BCEWithLogitsLoss(reduction='none')\<close> is the elementwise binary cross-entropy of logits.
\<close>

definition fdiv :: "real \<Rightarrow> real \<Rightarrow> real option" where
  "fdiv a b = (if b = 0 then None else Some (a / b))"

definition fmul :: "real \<Rightarrow> real option \<Rightarrow> real option" where
  "fmul w x = (case x of None \<Rightarrow> None | Some v \<Rightarrow> Some (w * v))"

definition fadd :: "real option \<Rightarrow> real option \<Rightarrow> real option" where
  "fadd x y = (case x of None \<Rightarrow> None | Some a \<Rightarrow> (case y of None \<Rightarrow> None | Some b \<Rightarrow> Some (a + b)))"

definition tensor_sum :: "real tensor \<Rightarrow> real" where
  "tensor_sum x = sum_list (data x)"

definition CrossEntropyLoss :: "real tensor \<Rightarrow> int tensor \<Rightarrow> error + real tensor" where
  "CrossEntropyLoss input label =
     (case shape input of
        [n, classes] \<Rightarrow>
          if shape label \<noteq> [n] then Inl ShapeError
          else if \<not> list_all (\<lambda>l. l = - 100 \<or> (0 \<le> l \<and> l < int classes)) (data label)
          then Inl ValueError
          else Inr (tabulate [n]
                 (\<lambda>idx. if get label idx = - 100 then 0
                        else - ln (get (softmax input) [idx ! 0, nat (get label idx)])))
      | _ \<Rightarrow> Inl ShapeError)"

definition BCEWithLogitsLoss :: "real tensor \<Rightarrow> real tensor \<Rightarrow> error + real tensor" where
  "BCEWithLogitsLoss logit label =
     (if shape logit \<noteq> shape label then Inl ShapeError
      else Inr (tabulate (shape logit)
             (\<lambda>idx. max (get logit idx) 0 - get logit idx * get label idx
                      + ln (1 + exp (- \<bar>get logit idx\<bar>)))))"

record ElectraPretrainingCriterion =
  vocab_size :: nat
  gen_weight :: real
  disc_weight :: real

definition ElectraPretrainingCriterion_forward ::
  "ElectraPretrainingCriterion \<Rightarrow> real tensor \<Rightarrow> real tensor \<Rightarrow> int tensor \<Rightarrow> int tensor
     \<Rightarrow> bool tensor option \<Rightarrow> error + real option" where
  "ElectraPretrainingCriterion_forward self generator_prediction_scores
       discriminator_prediction_scores generator_labels discriminator_labels attention_mask =
     ebind (reshape generator_prediction_scores
              [length (data generator_prediction_scores) div vocab_size self, vocab_size self])
       (\<lambda>scores.
     ebind (reshape generator_labels [length (data generator_labels)]) (\<lambda>labels.
     ebind (CrossEntropyLoss scores labels) (\<lambda>gen_loss.
       let umask_positions = zeros_like generator_labels;
           mask_positions = ones_like generator_labels
       in
     ebind (tensor_where (map_tensor (\<lambda>v. v = - 100) generator_labels)
              umask_positions mask_positions)
       (\<lambda>mask_positions.
       let gen_loss =
             (if tensor_sum mask_positions = 0 then Some 0
              else fdiv (tensor_sum gen_loss) (tensor_sum mask_positions))
       in
       case shape discriminator_labels of
         batch # seq_length # rest \<Rightarrow>
           ebind (reshape discriminator_prediction_scores
                    [length (data discriminator_prediction_scores) div seq_length, seq_length])
             (\<lambda>scores.
           ebind (BCEWithLogitsLoss scores (map_tensor real_of_int discriminator_labels))
             (\<lambda>disc_loss.
           ebind
             (case attention_mask of
                Some attention_mask \<Rightarrow>
                  let umask_positions = ones_like discriminator_labels;
                      mask_positions = zeros_like discriminator_labels
                  in
                  ebind (tensor_where attention_mask disc_loss mask_positions) (\<lambda>use_disc_loss.
                  ebind (tensor_where attention_mask umask_positions mask_positions)
                    (\<lambda>umask_positions.
                    Inr (fdiv (tensor_sum use_disc_loss) (tensor_sum umask_positions))))
              | None \<Rightarrow>
                  let total_positions = ones_like discriminator_labels
                  in Inr (fdiv (tensor_sum disc_loss) (tensor_sum total_positions)))
             (\<lambda>disc_loss.
                Inr (fadd (fmul (gen_weight self) gen_loss) (fmul (disc_weight self) disc_loss)))))
       | _ \<Rightarrow> Inl IndexError))))"

lemma elementwise_same_data:
  assumes "shape x = s" "shape y = s" "wf_tensor x" "wf_tensor y"
  shows "elementwise f x y = Inr (Tensor s (map (\<lambda>(a, b). f a b) (zip (data x) (data y))))"
proof -
  have l: "length (data x) = prod_list s" "length (data y) = prod_list s"
    using assms by (simp_all add: wf_tensor_def)
  have "map (\<lambda>k. f (get x (bidx s (unravel s k))) (get y (bidx s (unravel s k)))) [0..<prod_list s] =
        map (\<lambda>(a, b). f a b) (zip (data x) (data y))"
  proof (rule nth_equalityI)
    show "length (map (\<lambda>k. f (get x (bidx s (unravel s k))) (get y (bidx s (unravel s k))))
               [0..<prod_list s]) = length (map (\<lambda>(a, b). f a b) (zip (data x) (data y)))"
      by (simp add: l)
  next
    fix k assume "k < length (map (\<lambda>k. f (get x (bidx s (unravel s k))) (get y (bidx s (unravel s k))))
               [0..<prod_list s])"
    then have k: "k < prod_list s" by simp
    have "bidx s (unravel s k) = unravel s k" by (rule bidx_valid[OF valid_unravel[OF k]])
    then show "map (\<lambda>k. f (get x (bidx s (unravel s k))) (get y (bidx s (unravel s k))))
               [0..<prod_list s] ! k = map (\<lambda>(a, b). f a b) (zip (data x) (data y)) ! k"
      using k by (simp add: l get_def assms(1,2) ravel_unravel)
  qed
  then show ?thesis
    by (simp add: elementwise_def assms(1,2) broadcast_shapes_same tabulate_def)
qed

lemma tensor_where_data:
  assumes "shape c = s" "shape x = s" "shape y = s" "wf_tensor c" "wf_tensor x" "wf_tensor y"
  shows "tensor_where c x y =
     Inr (Tensor s (map (\<lambda>(c, a, b). if c then a else b) (zip (data c) (zip (data x) (data y)))))"
proof -
  define xy where "xy = Tensor s (zip (data x) (data y))"
  have "elementwise Pair x y = Inr (Tensor s (map (\<lambda>(a, b). (a, b)) (zip (data x) (data y))))"
    by (rule elementwise_same_data[OF assms(2,3,5,6)])
  then have 1: "elementwise Pair x y = Inr xy"
    by (simp add: xy_def)
  have w: "wf_tensor xy" "shape xy = s" "data xy = zip (data x) (data y)"
    using assms by (simp_all add: wf_tensor_def xy_def)
  have 2: "elementwise (\<lambda>c (a, b). if c then a else b) c xy =
     Inr (Tensor s (map (\<lambda>(c, ab). case ab of (a, b) \<Rightarrow> if c then a else b) (zip (data c) (data xy))))"
    by (rule elementwise_same_data[OF assms(1) w(2) assms(4) w(1)])
  show ?thesis
    unfolding tensor_where_def 1 ebind_Inr 2 w(3) ..
qed

lemma where_indicator:
  "length cs = n \<Longrightarrow>
     map (\<lambda>(c, a, b). if c then a else b) (zip cs (zip (replicate n u) (replicate n v))) =
     map (\<lambda>c. if c then u else v) cs"
  by (rule nth_equalityI) auto

lemma where_zero:
  "length cs = n \<Longrightarrow> length xs = n \<Longrightarrow>
     map (\<lambda>(c, a, b). if c then a else b) (zip cs (zip xs (replicate n v))) =
     map (\<lambda>(c, a). if c then a else v) (zip cs xs)"
  by (rule nth_equalityI) auto

lemma sum_indicator_not: 
  "sum_list (map (\<lambda>c. if c then 0 else 1) (map P ls)) = real (length (filter (\<lambda>l. \<not> P l) ls))"
  by (induction ls) auto

lemma sum_indicator:
  "sum_list (map (\<lambda>c. if c then 1 else 0) cs) = real (length (filter (\<lambda>c. c) cs))"
  by (induction cs) auto

lemma filter_empty_all: "(length (filter (\<lambda>l. \<not> P l) ls) = 0) = list_all P ls"
  by (induction ls) auto


text \<open>
  C7.  The criterion returns \<open>gen_weight * gen_loss + disc_weight * disc_loss\<close>.  If every
  generator label is the sentinel \<open>-100\<close>, \<open>gen_loss\<close> is exactly 0 (a finite value, with no
  division); otherwise it is the summed token cross-entropy divided by the number of
  non-sentinel labels.  With no attention mask the denominator of the discriminator loss is
  the number of elements of \<open>discriminator_labels\<close>; with a mask only the positions where it
  is true contribute, and the denominator is their number.
\<close>

theorem ElectraPretrainingCriterion_forward_loss:
  assumes "vocab_size self = V" "0 < V" "0 < L"
    and "shape generator_prediction_scores = [B, L, V]" "wf_tensor generator_prediction_scores"
    and "shape generator_labels = [B, L]" "wf_tensor generator_labels"
    and "list_all (\<lambda>l. l = - 100 \<or> (0 \<le> l \<and> l < int V)) (data generator_labels)"
    and "shape discriminator_prediction_scores = [B, L]"
      "wf_tensor discriminator_prediction_scores"
    and "shape discriminator_labels = [B, L]" "wf_tensor discriminator_labels"
    and "case attention_mask of None \<Rightarrow> True | Some m \<Rightarrow> shape m = [B, L] \<and> wf_tensor m"
  shows "\<exists>token_loss position_loss.
     CrossEntropyLoss (Tensor [B * L, V] (data generator_prediction_scores))
        (Tensor [B * L] (data generator_labels)) = Inr token_loss \<and>
     BCEWithLogitsLoss discriminator_prediction_scores
        (map_tensor real_of_int discriminator_labels) = Inr position_loss \<and>
     ElectraPretrainingCriterion_forward self generator_prediction_scores
        discriminator_prediction_scores generator_labels discriminator_labels attention_mask =
       Inr (fadd
         (fmul (gen_weight self)
            (if list_all (\<lambda>l. l = - 100) (data generator_labels) then Some 0
             else Some (tensor_sum token_loss /
                        real (length (filter (\<lambda>l. l \<noteq> - 100) (data generator_labels))))))
         (fmul (disc_weight self)
            (case attention_mask of
               None \<Rightarrow> fdiv (tensor_sum position_loss) (real (length (data discriminator_labels)))
             | Some m \<Rightarrow>
                 fdiv (sum_list (map (\<lambda>(c, v). if c then v else 0) (zip (data m) (data position_loss))))
                      (real (length (filter (\<lambda>c. c) (data m)))))))"
proof -
  define n where "n = B * L"
  have lg: "length (data generator_prediction_scores) = n * V"
    and ll: "length (data generator_labels) = n"
    and ld: "length (data discriminator_prediction_scores) = n"
    and ldl: "length (data discriminator_labels) = n"
    using assms by (simp_all add: wf_tensor_def n_def)
  define sc2 where "sc2 = Tensor [n, V] (data generator_prediction_scores)"
  define lb1 where "lb1 = Tensor [n] (data generator_labels)"
  have r1: "reshape generator_prediction_scores
              [length (data generator_prediction_scores) div vocab_size self, vocab_size self] = Inr sc2"
    using assms(2) by (simp add: reshape_def lg assms(1) sc2_def)
  have r2: "reshape generator_labels [length (data generator_labels)] = Inr lb1"
    by (simp add: reshape_def lb1_def ll)
  define token_loss where "token_loss = tabulate [n]
                 (\<lambda>idx. if get lb1 idx = - 100 then 0
                        else - ln (get (softmax sc2) [idx ! 0, nat (get lb1 idx)]))"
  have s12: "shape sc2 = [n, V]" "shape lb1 = [n]" "data lb1 = data generator_labels"
    by (simp_all add: sc2_def lb1_def)
  have ce: "CrossEntropyLoss sc2 lb1 = Inr token_loss"
    using assms(8) by (simp add: CrossEntropyLoss_def s12 token_loss_def)
  define cond where "cond = map_tensor (\<lambda>v. v = - 100) generator_labels"
  have cnd: "shape cond = [B, L]" "wf_tensor cond" "data cond = map (\<lambda>v. v = - 100) (data generator_labels)"
    using assms(6,7) by (simp_all add: cond_def map_tensor_def wf_tensor_def)
  define mp :: "real tensor" where
    "mp = Tensor [B, L] (map (\<lambda>c. if c then 0 else 1) (data cond))"
  have wh: "tensor_where cond (zeros_like generator_labels) (ones_like generator_labels) = Inr mp"
  proof -
    have "tensor_where cond (zeros_like generator_labels :: real tensor) (ones_like generator_labels) =
      Inr (Tensor [B, L] (map (\<lambda>(c, a, b). if c then a else b)
         (zip (data cond) (zip (data (zeros_like generator_labels :: real tensor))
                               (data (ones_like generator_labels :: real tensor))))))"
      by (rule tensor_where_data) (simp_all add: cnd assms(6) zeros_like_def ones_like_def)
    also have "map (\<lambda>(c, a, b). if c then a else b)
         (zip (data cond) (zip (data (zeros_like generator_labels :: real tensor))
                               (data (ones_like generator_labels :: real tensor)))) =
        map (\<lambda>c. if c then 0 else 1) (data cond)"
      unfolding zeros_like_def ones_like_def full_def tensor.sel
      by (rule where_indicator) (simp add: cnd(3) ll assms(6) n_def)
    finally show ?thesis by (simp add: mp_def)
  qed
  have smp: "tensor_sum mp = real (length (filter (\<lambda>l. l \<noteq> - 100) (data generator_labels)))"
    unfolding tensor_sum_def mp_def tensor.sel cnd(3) by (rule sum_indicator_not)
  have zero: "(tensor_sum mp = 0) = list_all (\<lambda>l. l = - 100) (data generator_labels)"
    unfolding smp using filter_empty_all[of "\<lambda>l. l = - 100" "data generator_labels"] by simp
  define gen_loss where "gen_loss =
     (if tensor_sum mp = 0 then Some 0 else fdiv (tensor_sum token_loss) (tensor_sum mp))"
  have gl: "gen_loss =
      (if list_all (\<lambda>l. l = - 100) (data generator_labels) then Some 0
       else Some (tensor_sum token_loss /
                  real (length (filter (\<lambda>l. l \<noteq> - 100) (data generator_labels)))))"
    unfolding gen_loss_def zero by (auto simp: fdiv_def smp zero[symmetric])
  have r3: "reshape discriminator_prediction_scores
        [length (data discriminator_prediction_scores) div L, L] = Inr discriminator_prediction_scores"
  proof -
    have "Tensor [B, L] (data discriminator_prediction_scores) = discriminator_prediction_scores"
      using assms(9) by (cases discriminator_prediction_scores) simp
    then show ?thesis using assms(3) by (simp add: reshape_def ld n_def)
  qed
  define fl where "fl = map_tensor real_of_int discriminator_labels"
  have fls: "shape fl = [B, L]" by (simp add: fl_def assms(11))
  define position_loss where "position_loss = tabulate [B, L]
             (\<lambda>idx. max (get discriminator_prediction_scores idx) 0
                      - get discriminator_prediction_scores idx * get fl idx
                      + ln (1 + exp (- \<bar>get discriminator_prediction_scores idx\<bar>)))"
  have bce: "BCEWithLogitsLoss discriminator_prediction_scores fl = Inr position_loss"
    by (simp add: BCEWithLogitsLoss_def assms(9) fls position_loss_def)
  have pl: "shape position_loss = [B, L]" "wf_tensor position_loss"
    "length (data position_loss) = n"
    by (simp_all add: position_loss_def tabulate_def n_def wf_tensor_def)
  define disc_loss where "disc_loss =
     (case attention_mask of
               None \<Rightarrow> fdiv (tensor_sum position_loss) (real (length (data discriminator_labels)))
             | Some m \<Rightarrow>
                 fdiv (sum_list (map (\<lambda>(c, v). if c then v else 0) (zip (data m) (data position_loss))))
                      (real (length (filter (\<lambda>c. c) (data m)))))"
  have dl: "(case attention_mask of
                Some attention_mask \<Rightarrow>
                  ebind (tensor_where attention_mask position_loss (zeros_like discriminator_labels))
                    (\<lambda>use_disc_loss.
                  ebind (tensor_where attention_mask (ones_like discriminator_labels)
                           (zeros_like discriminator_labels))
                    (\<lambda>umask_positions.
                    Inr (fdiv (tensor_sum use_disc_loss) (tensor_sum umask_positions))))
              | None \<Rightarrow> Inr (fdiv (tensor_sum position_loss)
                                 (tensor_sum (ones_like discriminator_labels)))) = Inr disc_loss"
  proof (cases attention_mask)
    case None
    have "tensor_sum (ones_like discriminator_labels) = real (length (data discriminator_labels))"
      by (simp add: tensor_sum_def ones_like_def full_def sum_list_replicate assms(11) ldl n_def)
    then show ?thesis using None by (simp add: disc_loss_def)
  next
    case (Some m)
    with assms(13) have m: "shape m = [B, L]" "wf_tensor m" by simp_all
    then have lm: "length (data m) = n" by (simp add: wf_tensor_def n_def)
    have "tensor_where m position_loss (zeros_like discriminator_labels) =
      Inr (Tensor [B, L] (map (\<lambda>(c, a, b). if c then a else b)
         (zip (data m) (zip (data position_loss)
                            (data (zeros_like discriminator_labels :: real tensor))))))"
      by (rule tensor_where_data) (simp_all add: m pl assms(11) zeros_like_def)
    also have "map (\<lambda>(c, a, b). if c then a else b)
         (zip (data m) (zip (data position_loss)
                            (data (zeros_like discriminator_labels :: real tensor)))) =
       map (\<lambda>(c, a). if c then a else 0) (zip (data m) (data position_loss))"
      unfolding zeros_like_def full_def tensor.sel
      by (rule where_zero) (simp_all add: lm pl assms(11) n_def)
    finally have w1: "tensor_where m position_loss (zeros_like discriminator_labels) =
      Inr (Tensor [B, L] (map (\<lambda>(c, a). if c then a else 0) (zip (data m) (data position_loss))))" .
    have "tensor_where m (ones_like discriminator_labels :: real tensor)
             (zeros_like discriminator_labels) =
      Inr (Tensor [B, L] (map (\<lambda>(c, a, b). if c then a else b)
         (zip (data m) (zip (data (ones_like discriminator_labels :: real tensor))
                            (data (zeros_like discriminator_labels :: real tensor))))))"
      by (rule tensor_where_data) (simp_all add: m assms(11) zeros_like_def ones_like_def)
    also have "map (\<lambda>(c, a, b). if c then a else b)
         (zip (data m) (zip (data (ones_like discriminator_labels :: real tensor))
                            (data (zeros_like discriminator_labels :: real tensor)))) =
       map (\<lambda>c. if c then 1 else 0) (data m)"
      unfolding zeros_like_def ones_like_def full_def tensor.sel
      by (rule where_indicator) (simp add: lm assms(11) n_def)
    finally have w2: "tensor_where m (ones_like discriminator_labels :: real tensor)
             (zeros_like discriminator_labels) =
      Inr (Tensor [B, L] (map (\<lambda>c. if c then 1 else 0) (data m)))" .
    show ?thesis using Some
      by (simp add: w1 w2 disc_loss_def tensor_sum_def sum_indicator)
  qed
  have "ElectraPretrainingCriterion_forward self generator_prediction_scores
        discriminator_prediction_scores generator_labels discriminator_labels attention_mask =
       Inr (fadd (fmul (gen_weight self) gen_loss) (fmul (disc_weight self) disc_loss))"
    unfolding ElectraPretrainingCriterion_forward_def
    by (simp only: r1 r2 ce ebind_Inr Let_def cond_def[symmetric] wh gen_loss_def[symmetric]
          assms(11) list.case r3 fl_def[symmetric] bce dl)
  then show ?thesis
    unfolding gl disc_loss_def
    using ce bce by (auto simp: sc2_def lb1_def fl_def n_def)
qed


theorem ElectraPretrainingCriterion_forward_loss_witness:
  "(\<exists>position_loss.
      BCEWithLogitsLoss (Tensor [1, 2] [0, 0]) (map_tensor real_of_int (Tensor [1, 2] [1, 0])) =
        Inr position_loss \<and>
      ElectraPretrainingCriterion_forward \<lparr>vocab_size = 2, gen_weight = 1, disc_weight = 50\<rparr>
         (Tensor [1, 2, 2] [0, 0, 0, 0]) (Tensor [1, 2] [0, 0]) (Tensor [1, 2] [- 100, - 100])
         (Tensor [1, 2] [1, 0]) None =
        Inr (fadd (fmul 1 (Some 0)) (fmul 50 (fdiv (tensor_sum position_loss) 2)))) \<and>
   (\<exists>token_loss position_loss.
      ElectraPretrainingCriterion_forward \<lparr>vocab_size = 2, gen_weight = 1, disc_weight = 50\<rparr>
         (Tensor [1, 2, 2] [0, 0, 0, 0]) (Tensor [1, 2] [0, 0]) (Tensor [1, 2] [1, - 100])
         (Tensor [1, 2] [1, 0]) (Some (Tensor [1, 2] [True, False])) =
        Inr (fadd (fmul 1 (Some (tensor_sum token_loss / 1)))
                  (fmul 50 (fdiv (sum_list (map (\<lambda>(c, v). if c then v else 0)
                                    (zip [True, False] (data position_loss)))) 1))))"
proof
  have h: "vocab_size \<lparr>vocab_size = 2, gen_weight = 1, disc_weight = 50\<rparr> = 2" "(0::nat) < 2" "(0::nat) < 2"
    "shape (Tensor [1, 2, 2] [0, 0, 0, 0 :: real]) = [1, 2, 2]"
    "wf_tensor (Tensor [1, 2, 2] [0, 0, 0, 0 :: real])"
    "shape (Tensor [1, 2] [- 100, - 100 :: int]) = [1, 2]"
    "wf_tensor (Tensor [1, 2] [- 100, - 100 :: int])"
    "list_all (\<lambda>l. l = - 100 \<or> (0 \<le> l \<and> l < int 2)) (data (Tensor [1, 2] [- 100, - 100 :: int]))"
    "shape (Tensor [1, 2] [0, 0 :: real]) = [1, 2]" "wf_tensor (Tensor [1, 2] [0, 0 :: real])"
    "shape (Tensor [1, 2] [1, 0 :: int]) = [1, 2]" "wf_tensor (Tensor [1, 2] [1, 0 :: int])"
    "case None :: bool tensor option of None \<Rightarrow> True | Some m \<Rightarrow> shape m = [1, 2] \<and> wf_tensor m"
    by (simp_all add: wf_tensor_def)
  from ElectraPretrainingCriterion_forward_loss[OF h]
  show "\<exists>position_loss.
      BCEWithLogitsLoss (Tensor [1, 2] [0, 0]) (map_tensor real_of_int (Tensor [1, 2] [1, 0])) =
        Inr position_loss \<and>
      ElectraPretrainingCriterion_forward \<lparr>vocab_size = 2, gen_weight = 1, disc_weight = 50\<rparr>
         (Tensor [1, 2, 2] [0, 0, 0, 0]) (Tensor [1, 2] [0, 0]) (Tensor [1, 2] [- 100, - 100])
         (Tensor [1, 2] [1, 0]) None =
        Inr (fadd (fmul 1 (Some 0)) (fmul 50 (fdiv (tensor_sum position_loss) 2)))"
    by auto
next
  have h: "vocab_size \<lparr>vocab_size = 2, gen_weight = 1, disc_weight = 50\<rparr> = 2" "(0::nat) < 2" "(0::nat) < 2"
    "shape (Tensor [1, 2, 2] [0, 0, 0, 0 :: real]) = [1, 2, 2]"
    "wf_tensor (Tensor [1, 2, 2] [0, 0, 0, 0 :: real])"
    "shape (Tensor [1, 2] [1, - 100 :: int]) = [1, 2]"
    "wf_tensor (Tensor [1, 2] [1, - 100 :: int])"
    "list_all (\<lambda>l. l = - 100 \<or> (0 \<le> l \<and> l < int 2)) (data (Tensor [1, 2] [1, - 100 :: int]))"
    "shape (Tensor [1, 2] [0, 0 :: real]) = [1, 2]" "wf_tensor (Tensor [1, 2] [0, 0 :: real])"
    "shape (Tensor [1, 2] [1, 0 :: int]) = [1, 2]" "wf_tensor (Tensor [1, 2] [1, 0 :: int])"
    "case Some (Tensor [1, 2] [True, False]) of None \<Rightarrow> True | Some m \<Rightarrow> shape m = [1, 2] \<and> wf_tensor m"
    by (simp_all add: wf_tensor_def)
  from ElectraPretrainingCriterion_forward_loss[OF h]
  show "\<exists>token_loss position_loss.
      ElectraPretrainingCriterion_forward \<lparr>vocab_size = 2, gen_weight = 1, disc_weight = 50\<rparr>
         (Tensor [1, 2, 2] [0, 0, 0, 0]) (Tensor [1, 2] [0, 0]) (Tensor [1, 2] [1, - 100])
         (Tensor [1, 2] [1, 0]) (Some (Tensor [1, 2] [True, False])) =
        Inr (fadd (fmul 1 (Some (tensor_sum token_loss / 1)))
                  (fmul 50 (fdiv (sum_list (map (\<lambda>(c, v). if c then v else 0)
                                    (zip [True, False] (data position_loss)))) 1)))"
    by auto
qed

section \<open>NeZha: embeddings, encoder and model\<close>

text \<open>
  \<^verbatim>\<open>NeZhaEmbeddings\<close>, \<^verbatim>\<open>NeZhaLayer\<close>, \<^verbatim>\<open>NeZhaEncoder\<close>, \<^verbatim>\<open>NeZhaPooler\<close> and \<^verbatim>\<open>NeZhaModel\<close>.
  The activation is the function the name \<^verbatim>\<open>hidden_act\<close> selects.  The encoder's loop over its
  layers is \<open>NeZhaEncoder_loop\<close>, with the two lists it appends to; \<^verbatim>\<open>copy.deepcopy\<close> gives
  every layer the same initial parameters.  The attention mask is a float tensor; the two
  lines of \<^verbatim>\<open>NeZhaModel.forward\<close> that extend it are \<open>extended_attention_mask\<close>.  The keep-masks
  of the dropouts are \<open>rng 0 0\<close> for the embeddings and \<open>rng (Suc i)\<close> for layer \<open>i\<close>.
\<close>

definition unsqueeze :: "'a tensor \<Rightarrow> nat \<Rightarrow> error + 'a tensor" where
  "unsqueeze x axis =
     (if axis \<le> length (shape x)
      then Inr (Tensor (take axis (shape x) @ [1] @ drop axis (shape x)) (data x))
      else Inl ShapeError)"

definition expand_as :: "'a tensor \<Rightarrow> 'b tensor \<Rightarrow> error + 'a tensor" where
  "expand_as x y =
     (if broadcast_shapes (shape x) (shape y) = Inr (shape y)
      then Inr (tabulate (shape y) (\<lambda>idx. get x (bidx (shape x) idx)))
      else Inl ShapeError)"

definition Embedding_forward :: "real tensor \<Rightarrow> int tensor \<Rightarrow> error + real tensor" where
  "Embedding_forward table ids =
     (case shape table of
        [num_embeddings, embedding_dim] \<Rightarrow>
          if list_all (\<lambda>v. 0 \<le> v \<and> v < int num_embeddings) (data ids)
          then Inr (tabulate (shape ids @ [embedding_dim])
                      (\<lambda>idx. get table [nat (get ids (butlast idx)), last idx]))
          else Inl IndexError
      | _ \<Rightarrow> Inl ShapeError)"

record NeZhaEmbeddings =
  use_relative_position :: bool
  word_embeddings :: "real tensor"
  position_embeddings :: "real tensor option"
  token_type_embeddings :: "real tensor"
  embeddings_layer_norm :: LayerNorm
  embeddings_dropout :: real

definition NeZhaEmbeddings_init ::
  "(string \<Rightarrow> nat list \<Rightarrow> real tensor) \<Rightarrow> nat \<Rightarrow> nat \<Rightarrow> real \<Rightarrow> nat \<Rightarrow> nat \<Rightarrow> bool
     \<Rightarrow> NeZhaEmbeddings" where
  "NeZhaEmbeddings_init initializer vocabulary hidden_size hidden_dropout_prob
       max_position_embeddings type_vocab_size relative =
     \<lparr>use_relative_position = relative,
      word_embeddings = initializer ''word_embeddings.weight'' [vocabulary, hidden_size],
      position_embeddings =
        (if \<not> relative
         then Some (initializer ''position_embeddings.weight'' [max_position_embeddings, hidden_size])
         else None),
      token_type_embeddings =
        initializer ''token_type_embeddings.weight'' [type_vocab_size, hidden_size],
      embeddings_layer_norm =
        LayerNorm_init initializer ''embeddings.layer_norm'' hidden_size (1 / 10 ^ 5),
      embeddings_dropout = hidden_dropout_prob\<rparr>"

definition NeZhaEmbeddings_forward ::
  "NeZhaEmbeddings \<Rightarrow> bool \<Rightarrow> (nat \<Rightarrow> bool) \<Rightarrow> int tensor \<Rightarrow> int tensor option
     \<Rightarrow> error + real tensor" where
  "NeZhaEmbeddings_forward self training keep input_ids token_type_ids =
     (case shape input_ids of
        batch # seq_length # rest \<Rightarrow>
          ebind (unsqueeze (arange seq_length) 0) (\<lambda>position_ids.
          ebind (expand_as position_ids input_ids) (\<lambda>position_ids.
            let token_type_ids =
                  (case token_type_ids of None \<Rightarrow> zeros_like input_ids | Some t \<Rightarrow> t)
            in
          ebind (Embedding_forward (word_embeddings self) input_ids) (\<lambda>words_embeddings.
          ebind (if \<not> use_relative_position self
                 then (case position_embeddings self of
                         Some table \<Rightarrow>
                           ebind (Embedding_forward table position_ids) (\<lambda>position_embeddings.
                             elementwise (+) words_embeddings position_embeddings)
                       | None \<Rightarrow> Inl AttributeError)
                 else Inr words_embeddings)
            (\<lambda>embeddings.
          ebind (Embedding_forward (token_type_embeddings self) token_type_ids)
            (\<lambda>token_type_embeddings.
          ebind (elementwise (+) embeddings token_type_embeddings) (\<lambda>embeddings.
          ebind (LayerNorm_forward (embeddings_layer_norm self) embeddings) (\<lambda>embeddings.
            Inr (dropout (embeddings_dropout self) training keep embeddings))))))))
      | _ \<Rightarrow> Inl IndexError)"

record NeZhaLayer =
  layer_layer_norm :: LayerNorm
  attention :: NeZhaAttention
  ffn :: Linear
  ffn_output :: Linear
  activation :: "real \<Rightarrow> real"
  layer_dropout :: real

definition NeZhaLayer_init ::
  "(string \<Rightarrow> nat list \<Rightarrow> real tensor) \<Rightarrow> nat \<Rightarrow> nat \<Rightarrow> nat \<Rightarrow> (real \<Rightarrow> real) \<Rightarrow> real \<Rightarrow> real
     \<Rightarrow> nat \<Rightarrow> real \<Rightarrow> error + NeZhaLayer" where
  "NeZhaLayer_init initializer hidden_size heads intermediate_size hidden_act
       hidden_dropout_prob attention_probs_dropout_prob max_relative_position layer_norm_eps =
     ebind (NeZhaAttention_init initializer hidden_size heads hidden_dropout_prob
              attention_probs_dropout_prob max_relative_position layer_norm_eps)
       (\<lambda>attention_layer.
          Inr \<lparr>layer_layer_norm =
                 LayerNorm_init initializer ''layer.layer_norm'' hidden_size layer_norm_eps,
               attention = attention_layer,
               ffn = Linear_init initializer ''ffn'' hidden_size intermediate_size,
               ffn_output = Linear_init initializer ''ffn_output'' intermediate_size hidden_size,
               activation = hidden_act,
               layer_dropout = hidden_dropout_prob\<rparr>)"

definition NeZhaLayer_forward ::
  "NeZhaLayer \<Rightarrow> bool \<Rightarrow> (nat \<Rightarrow> nat \<Rightarrow> bool) \<Rightarrow> real tensor \<Rightarrow> real tensor
     \<Rightarrow> error + (real tensor \<times> real tensor)" where
  "NeZhaLayer_forward self training rng hidden_states attention_mask =
     ebind (NeZhaAttention_forward (attention self) training rng hidden_states attention_mask)
       (\<lambda>(attention_output, layer_att).
     ebind (Linear_forward (ffn self) attention_output) (\<lambda>ffn_out.
       let ffn_out = map_tensor (activation self) ffn_out in
     ebind (Linear_forward (ffn_output self) ffn_out) (\<lambda>ffn_out.
       let ffn_output_dropout = dropout (layer_dropout self) training (rng 2) ffn_out in
     ebind (elementwise (+) ffn_output_dropout attention_output) (\<lambda>residual.
     ebind (LayerNorm_forward (layer_layer_norm self) residual) (\<lambda>hidden_states.
       Inr (hidden_states, layer_att))))))"

fun NeZhaEncoder_loop ::
  "bool \<Rightarrow> (nat \<Rightarrow> nat \<Rightarrow> nat \<Rightarrow> bool) \<Rightarrow> real tensor \<Rightarrow> NeZhaLayer list \<Rightarrow> nat \<Rightarrow> real tensor
     \<Rightarrow> real tensor list \<Rightarrow> real tensor list
     \<Rightarrow> error + (real tensor \<times> real tensor list \<times> real tensor list)" where
  "NeZhaEncoder_loop training rng attention_mask [] i hidden_states all_encoder_layers
       all_encoder_att = Inr (hidden_states, all_encoder_layers, all_encoder_att)"
| "NeZhaEncoder_loop training rng attention_mask (layer_module # rest) i hidden_states
       all_encoder_layers all_encoder_att =
     (let all_encoder_layers = all_encoder_layers @ [hidden_states] in
      if length all_encoder_layers \<le> i then Inl IndexError
      else
        ebind (NeZhaLayer_forward layer_module training (rng i) (all_encoder_layers ! i)
                 attention_mask)
          (\<lambda>(hidden_states, layer_att).
             NeZhaEncoder_loop training rng attention_mask rest (i + 1) hidden_states
               all_encoder_layers (all_encoder_att @ [layer_att])))"

definition NeZhaEncoder_init ::
  "(string \<Rightarrow> nat list \<Rightarrow> real tensor) \<Rightarrow> nat \<Rightarrow> nat \<Rightarrow> nat \<Rightarrow> nat \<Rightarrow> (real \<Rightarrow> real) \<Rightarrow> real
     \<Rightarrow> real \<Rightarrow> nat \<Rightarrow> real \<Rightarrow> error + NeZhaLayer list" where
  "NeZhaEncoder_init initializer hidden_size num_hidden_layers heads intermediate_size
       hidden_act hidden_dropout_prob attention_probs_dropout_prob max_relative_position
       layer_norm_eps =
     ebind (NeZhaLayer_init initializer hidden_size heads intermediate_size hidden_act
              hidden_dropout_prob attention_probs_dropout_prob max_relative_position
              layer_norm_eps)
       (\<lambda>layer. Inr (replicate num_hidden_layers layer))"

definition NeZhaEncoder_forward ::
  "NeZhaLayer list \<Rightarrow> bool \<Rightarrow> (nat \<Rightarrow> nat \<Rightarrow> nat \<Rightarrow> bool) \<Rightarrow> real tensor \<Rightarrow> real tensor
     \<Rightarrow> error + (real tensor list \<times> real tensor list)" where
  "NeZhaEncoder_forward layer training rng hidden_states attention_mask =
     ebind (NeZhaEncoder_loop training rng attention_mask layer 0 hidden_states [] [])
       (\<lambda>(hidden_states, all_encoder_layers, all_encoder_att).
          Inr (all_encoder_layers @ [hidden_states], all_encoder_att))"

definition select_first :: "real tensor \<Rightarrow> error + real tensor" where
  "select_first x =
     (case shape x of
        batch # seq_length # rest \<Rightarrow>
          if seq_length = 0 then Inl IndexError
          else Inr (tabulate (batch # rest) (\<lambda>idx. get x (hd idx # 0 # tl idx)))
      | _ \<Rightarrow> Inl IndexError)"

definition NeZhaPooler_forward :: "Linear \<Rightarrow> real tensor \<Rightarrow> error + real tensor" where
  "NeZhaPooler_forward dense_layer hidden_states =
     ebind (select_first hidden_states) (\<lambda>first_token_tensor.
     ebind (Linear_forward dense_layer first_token_tensor) (\<lambda>pooled_output.
       Inr (map_tensor tanh pooled_output)))"

record NeZhaModel =
  embeddings :: NeZhaEmbeddings
  encoder :: "NeZhaLayer list"
  pooler :: Linear

definition NeZhaModel_init ::
  "(string \<Rightarrow> nat list \<Rightarrow> real tensor) \<Rightarrow> nat \<Rightarrow> nat \<Rightarrow> nat \<Rightarrow> nat \<Rightarrow> nat \<Rightarrow> (real \<Rightarrow> real)
     \<Rightarrow> real \<Rightarrow> real \<Rightarrow> nat \<Rightarrow> nat \<Rightarrow> nat \<Rightarrow> real \<Rightarrow> bool \<Rightarrow> error + NeZhaModel" where
  "NeZhaModel_init initializer vocabulary hidden_size num_hidden_layers heads
       intermediate_size hidden_act hidden_dropout_prob attention_probs_dropout_prob
       max_position_embeddings type_vocab_size max_relative_position layer_norm_eps relative =
     (let embedding_layer =
            NeZhaEmbeddings_init initializer vocabulary hidden_size hidden_dropout_prob
              max_position_embeddings type_vocab_size relative
      in ebind (NeZhaEncoder_init initializer hidden_size num_hidden_layers heads
                  intermediate_size hidden_act hidden_dropout_prob attention_probs_dropout_prob
                  max_relative_position layer_norm_eps)
           (\<lambda>layers.
              Inr \<lparr>embeddings = embedding_layer, encoder = layers,
                   pooler = Linear_init initializer ''pooler.dense'' hidden_size hidden_size\<rparr>))"

definition extended_attention_mask :: "real tensor \<Rightarrow> error + real tensor" where
  "extended_attention_mask attention_mask =
     ebind (unsqueeze attention_mask 1) (\<lambda>m.
     ebind (unsqueeze m 2) (\<lambda>m.
       Inr (map_tensor (\<lambda>v. (1 - v) * (- 10000)) m)))"

definition NeZhaModel_forward ::
  "NeZhaModel \<Rightarrow> bool \<Rightarrow> (nat \<Rightarrow> nat \<Rightarrow> nat \<Rightarrow> bool) \<Rightarrow> int tensor \<Rightarrow> int tensor option
     \<Rightarrow> real tensor option \<Rightarrow> error + (real tensor \<times> real tensor)" where
  "NeZhaModel_forward self training rng input_ids token_type_ids attention_mask =
     (let attention_mask =
            (case attention_mask of None \<Rightarrow> ones_like input_ids | Some m \<Rightarrow> m);
          token_type_ids =
            (case token_type_ids of None \<Rightarrow> zeros_like input_ids | Some t \<Rightarrow> t)
      in
      ebind (extended_attention_mask attention_mask) (\<lambda>extended.
      ebind (NeZhaEmbeddings_forward (embeddings self) training (rng 0 0) input_ids
               (Some token_type_ids))
        (\<lambda>embedding_output.
      ebind (NeZhaEncoder_forward (encoder self) training (\<lambda>i. rng (Suc i)) embedding_output
               extended)
        (\<lambda>(encoder_outputs, all_encoder_att).
           let sequence_output = last encoder_outputs in
           ebind (NeZhaPooler_forward (pooler self) sequence_output) (\<lambda>pooled_output.
             Inr (sequence_output, pooled_output))))))"


subsection \<open>The mask every layer receives\<close>

lemma returns_extended_attention_mask:
  assumes "shape m = [B, S]" "wf_tensor m"
  shows "returns (extended_attention_mask m) [B, 1, 1, S]
           (\<lambda>idx. (1 - get m [idx ! 0, idx ! 3]) * (- 10000))"
proof -
  define e where "e = map_tensor (\<lambda>v. (1 - v) * (- 10000 :: real)) (Tensor [B, 1, 1, S] (data m))"
  have 1: "extended_attention_mask m = Inr e"
    by (simp add: extended_attention_mask_def unsqueeze_def assms(1) e_def)
  have w: "wf_tensor (Tensor [B, 1, 1, S] (data m))"
    using assms by (simp add: wf_tensor_def)
  have "get e idx = (1 - get m [idx ! 0, idx ! 3]) * (- 10000)" if "valid_index [B, 1, 1, S] idx" for idx
  proof -
    from that obtain b j where idx: "idx = [b, 0, 0, j]" "b < B" "j < S"
      by (auto simp: valid_index_Cons valid_index_Nil)
    have "get e idx = (1 - get (Tensor [B, 1, 1, S] (data m)) idx) * (- 10000)"
      unfolding e_def using that w by (simp add: get_map_tensor)
    also have "get (Tensor [B, 1, 1, S] (data m)) idx = get m [b, j]"
      by (simp add: get_def idx assms(1))
    finally show ?thesis by (simp add: idx)
  qed
  moreover have "shape e = [B, 1, 1, S]" "wf_tensor e"
    using w by (simp_all add: e_def)
  ultimately show ?thesis
    unfolding 1 returns_def by blast
qed

definition layer_shapes :: "NeZhaLayer \<Rightarrow> nat \<Rightarrow> nat \<Rightarrow> nat \<Rightarrow> bool" where
  "layer_shapes self hidden_size intermediate_size table_length =
     (attention_shapes (attention self) hidden_size table_length \<and>
      shape (weight (ffn self)) = [hidden_size, intermediate_size] \<and>
      shape (bias (ffn self)) = [intermediate_size] \<and>
      shape (weight (ffn_output self)) = [intermediate_size, hidden_size] \<and>
      shape (bias (ffn_output self)) = [hidden_size] \<and>
      shape (ln_weight (layer_layer_norm self)) = [hidden_size] \<and>
      shape (ln_bias (layer_layer_norm self)) = [hidden_size])"

lemma NeZhaLayer_forward_returns:
  assumes "layer_shapes self hid isz T"
    and hs: "shape hs = [B, S, hid]"
    and am: "shape amask = [B, 1, 1, S]"
    and ST: "S \<le> T"
  shows "\<exists>out att. NeZhaLayer_forward self training rng hs amask = Inr (out, att) \<and>
           shape out = [B, S, hid]"
proof -
  from assms(1) have sh: "attention_shapes (attention self) hid T"
    and f1: "shape (weight (ffn self)) = [hid, isz]" "shape (bias (ffn self)) = [isz]"
    and f2: "shape (weight (ffn_output self)) = [isz, hid]" "shape (bias (ffn_output self)) = [hid]"
    and ln: "shape (ln_weight (layer_layer_norm self)) = [hid]"
            "shape (ln_bias (layer_layer_norm self)) = [hid]"
    by (auto simp: layer_shapes_def)
  from forward_returns[OF sh hs am ST, of training rng] obtain ao att where
    a: "NeZhaAttention_forward (attention self) training rng hs amask = Inr (ao, att)"
       "shape ao = [B, S, hid]"
    by blast
  obtain y1 where y1: "Linear_forward (ffn self) ao = Inr y1" "shape y1 = [B, S, isz]"
    using returns_Linear[OF a(2) f1] by (auto elim: returnsE)
  define y2 where "y2 = map_tensor (activation self) y1"
  have y2: "shape y2 = [B, S, isz]" by (simp add: y2_def y1)
  obtain y3 where y3: "Linear_forward (ffn_output self) y2 = Inr y3" "shape y3 = [B, S, hid]"
    using returns_Linear[OF y2 f2] by (auto elim: returnsE)
  define y4 where "y4 = dropout (layer_dropout self) training (rng 2) y3"
  have y4: "shape y4 = [B, S, hid]" by (simp add: y4_def y3)
  obtain res where res: "elementwise (+) y4 ao = Inr res" "shape res = [B, S, hid]"
    using el_same3[OF y4 a(2), of "(+)"] by (auto elim: returnsE)
  from returns_LayerNorm[OF res(2) ln] obtain out where
    out: "LayerNorm_forward (layer_layer_norm self) res = Inr out" "shape out = [B, S, hid]"
    by blast
  have "NeZhaLayer_forward self training rng hs amask = Inr (out, att)"
    unfolding NeZhaLayer_forward_def
    by (simp only: a(1) ebind_Inr prod.case y1(1) Let_def y2_def[symmetric] y3(1)
          y4_def[symmetric] res(1) out(1))
  with out(2) show ?thesis by blast
qed

lemma NeZhaEncoder_loop_calls:
  assumes "NeZhaEncoder_loop training rng amask layers i hs done atts = Inr (hs', done', atts')"
    and "length done = i"
  shows "\<exists>Hs As. length Hs = length layers \<and> length As = length layers \<and>
           done' = done @ Hs \<and> atts' = atts @ As \<and> (Hs @ [hs']) ! 0 = hs \<and>
           (\<forall>k<length layers.
              NeZhaLayer_forward (layers ! k) training (rng (i + k)) ((Hs @ [hs']) ! k) amask =
                Inr ((Hs @ [hs']) ! Suc k, As ! k))"
  using assms
proof (induction layers arbitrary: i hs "done" atts)
  case Nil
  then show ?case by simp
next
  case (Cons l layers)
  from Cons.prems(2) have nth: "(done @ [hs]) ! i = hs" by (auto simp: nth_append)
  from Cons.prems obtain h1 a1 where
    step: "NeZhaLayer_forward l training (rng i) hs amask = Inr (h1, a1)"
    and rest: "NeZhaEncoder_loop training rng amask layers (Suc i) h1 (done @ [hs]) (atts @ [a1]) =
                 Inr (hs', done', atts')"
    by (auto simp: Let_def nth ebind_def split: sum.splits)
  from Cons.IH[OF rest] Cons.prems(2) obtain Hs As where
    IH: "length Hs = length layers" "length As = length layers"
      "done' = (done @ [hs]) @ Hs" "atts' = (atts @ [a1]) @ As" "(Hs @ [hs']) ! 0 = h1"
      "\<forall>k<length layers.
          NeZhaLayer_forward (layers ! k) training (rng (Suc i + k)) ((Hs @ [hs']) ! k) amask =
            Inr ((Hs @ [hs']) ! Suc k, As ! k)"
    by auto
  show ?case
  proof (rule exI[of _ "hs # Hs"], rule exI[of _ "a1 # As"], intro conjI allI impI)
    fix k assume k: "k < length (l # layers)"
    show "NeZhaLayer_forward ((l # layers) ! k) training (rng (i + k)) (((hs # Hs) @ [hs']) ! k) amask =
            Inr (((hs # Hs) @ [hs']) ! Suc k, (a1 # As) ! k)"
    proof (cases k)
      case 0
      then show ?thesis using step IH(5) by simp
    next
      case (Suc k')
      with k have "k' < length layers" by simp
      with IH(6) Suc show ?thesis by simp
    qed
  qed (use IH in simp_all)
qed

lemma NeZhaEncoder_forward_calls:
  assumes "NeZhaEncoder_forward layers training rng hs amask = Inr (hiddens, atts)"
  shows "length hiddens = length layers + 1 \<and> length atts = length layers \<and> hiddens ! 0 = hs \<and>
     (\<forall>k<length layers.
        NeZhaLayer_forward (layers ! k) training (rng k) (hiddens ! k) amask =
          Inr (hiddens ! Suc k, atts ! k))"
proof -
  from assms obtain hs' done' atts' where
    l: "NeZhaEncoder_loop training rng amask layers 0 hs [] [] = Inr (hs', done', atts')"
    and r: "hiddens = done' @ [hs']" "atts = atts'"
    by (auto simp: NeZhaEncoder_forward_def ebind_def split: sum.splits)
  from NeZhaEncoder_loop_calls[OF l] obtain Hs As where
    "length Hs = length layers" "length As = length layers"
    "done' = Hs" "atts' = As" "(Hs @ [hs']) ! 0 = hs"
    "\<forall>k<length layers.
        NeZhaLayer_forward (layers ! k) training (rng (0 + k)) ((Hs @ [hs']) ! k) amask =
          Inr ((Hs @ [hs']) ! Suc k, As ! k)"
    by auto
  with r show ?thesis by simp
qed

lemma NeZhaEncoder_loop_returns:
  assumes "list_all (\<lambda>l. layer_shapes l hid isz T) layers"
    and "shape hs = [B, S, hid]" "shape amask = [B, 1, 1, S]" "S \<le> T" "length done = i"
  shows "\<exists>hs' done' atts'.
     NeZhaEncoder_loop training rng amask layers i hs done atts = Inr (hs', done', atts') \<and>
     shape hs' = [B, S, hid]"
  using assms
proof (induction layers arbitrary: i hs "done" atts)
  case Nil
  then show ?case by simp
next
  case (Cons l layers)
  from Cons.prems have ls: "layer_shapes l hid isz T"
    and rest: "list_all (\<lambda>l. layer_shapes l hid isz T) layers" by simp_all
  from NeZhaLayer_forward_returns[OF ls Cons.prems(2,3,4), of training "rng i"]
  obtain h1 a1 where
    step: "NeZhaLayer_forward l training (rng i) hs amask = Inr (h1, a1)" "shape h1 = [B, S, hid]"
    by blast
  have "length (done @ [hs]) = Suc i" using Cons.prems(5) by simp
  moreover from Cons.prems(5) have "(done @ [hs]) ! i = hs" by (auto simp: nth_append)
  moreover note Cons.IH[OF rest step(2) Cons.prems(3,4) \<open>length (done @ [hs]) = Suc i\<close>,
      of "atts @ [a1]"]
  ultimately show ?case using step(1) by (simp add: Let_def)
qed

lemma NeZhaEncoder_forward_returns:
  assumes "list_all (\<lambda>l. layer_shapes l hid isz T) layers"
    and "shape hs = [B, S, hid]" "shape amask = [B, 1, 1, S]" "S \<le> T"
  shows "\<exists>hiddens atts. NeZhaEncoder_forward layers training rng hs amask = Inr (hiddens, atts) \<and>
     shape (last hiddens) = [B, S, hid]"
proof -
  from NeZhaEncoder_loop_returns[OF assms, of "[]" 0 training rng "[]"]
  obtain hs' done' atts' where
    "NeZhaEncoder_loop training rng amask layers 0 hs [] [] = Inr (hs', done', atts')"
    "shape hs' = [B, S, hid]" by auto
  then show ?thesis by (simp add: NeZhaEncoder_forward_def)
qed


definition embeddings_shapes :: "NeZhaEmbeddings \<Rightarrow> nat \<Rightarrow> nat \<Rightarrow> nat \<Rightarrow> nat \<Rightarrow> bool" where
  "embeddings_shapes self vocabulary hidden_size type_vocab_size max_position_embeddings =
     (shape (word_embeddings self) = [vocabulary, hidden_size] \<and>
      shape (token_type_embeddings self) = [type_vocab_size, hidden_size] \<and>
      shape (ln_weight (embeddings_layer_norm self)) = [hidden_size] \<and>
      shape (ln_bias (embeddings_layer_norm self)) = [hidden_size] \<and>
      (use_relative_position self \<or>
       (\<exists>table. position_embeddings self = Some table \<and>
                shape table = [max_position_embeddings, hidden_size])))"

lemma Embedding_forward_returns:
  assumes "shape table = [n, dm]" "shape ids = [B, S]"
    "list_all (\<lambda>v. 0 \<le> v \<and> v < int n) (data ids)"
  shows "\<exists>r. Embedding_forward table ids = Inr r \<and> shape r = [B, S, dm]"
  using assms by (simp add: Embedding_forward_def)

lemma position_ids_returns:
  assumes "shape input_ids = [B, S]"
  shows "\<exists>p1 p2. unsqueeze (arange S) 0 = Inr p1 \<and> expand_as p1 input_ids = Inr p2 \<and>
           shape p2 = [B, S] \<and> list_all (\<lambda>v. 0 \<le> v \<and> v < int S) (data p2)"
proof -
  define p1 where "p1 = Tensor [1, S] (map int [0..<S])"
  have 1: "unsqueeze (arange S) 0 = Inr p1"
    by (simp add: unsqueeze_def arange_def p1_def)
  define p2 where "p2 = tabulate [B, S] (\<lambda>idx. get p1 (bidx (shape p1) idx))"
  have bs: "broadcast_shapes [Suc 0, S] [B, S] = Inr [B, S]"
    by (simp add: broadcast_shapes_def)
  have 2: "expand_as p1 input_ids = Inr p2"
    by (simp add: expand_as_def assms p1_def p2_def bs)
  have "0 \<le> data p2 ! k \<and> data p2 ! k < int S" if "k < length (data p2)" for k
  proof -
    from that have k: "k < B * S" by (simp add: p2_def tabulate_def)
    then have pos: "0 < S" by (cases S) auto
    have "data p2 ! k = get p1 (bidx [1, S] [k div S, k mod S])"
      using k by (simp add: p2_def tabulate_def p1_def)
    also have "\<dots> = get p1 [0, k mod S]"
      using pos by (simp add: bidx_def)
    also have "\<dots> = int (k mod S)"
      using pos by (simp add: get_def p1_def)
    finally show ?thesis using pos by simp
  qed
  then have "list_all (\<lambda>v. 0 \<le> v \<and> v < int S) (data p2)"
    by (simp add: list_all_length)
  with 1 2 show ?thesis by (auto simp: p2_def)
qed

lemma list_all_range_mono:
  "list_all (\<lambda>v. 0 \<le> v \<and> v < int S) xs \<Longrightarrow> S \<le> P \<Longrightarrow> list_all (\<lambda>v. 0 \<le> v \<and> v < int P) xs"
  by (induction xs) auto

lemma NeZhaEmbeddings_forward_returns:
  assumes es: "embeddings_shapes self vocabulary hid types P"
    and ids: "shape input_ids = [B, S]"
      "list_all (\<lambda>v. 0 \<le> v \<and> v < int vocabulary) (data input_ids)"
    and tt: "shape token_type_ids = [B, S]"
      "list_all (\<lambda>v. 0 \<le> v \<and> v < int types) (data token_type_ids)"
    and SP: "use_relative_position self \<or> S \<le> P"
  shows "\<exists>emb. NeZhaEmbeddings_forward self training keep input_ids (Some token_type_ids) = Inr emb \<and>
           shape emb = [B, S, hid]"
proof -
  from es have w: "shape (word_embeddings self) = [vocabulary, hid]"
    and t: "shape (token_type_embeddings self) = [types, hid]"
    and ln: "shape (ln_weight (embeddings_layer_norm self)) = [hid]"
      "shape (ln_bias (embeddings_layer_norm self)) = [hid]"
    and ps: "use_relative_position self \<or>
       (\<exists>table. position_embeddings self = Some table \<and> shape table = [P, hid])"
    by (auto simp: embeddings_shapes_def)
  from position_ids_returns[OF ids(1)] obtain p1 p2 where
    p: "unsqueeze (arange S) 0 = Inr p1" "expand_as p1 input_ids = Inr p2" "shape p2 = [B, S]"
       "list_all (\<lambda>v. 0 \<le> v \<and> v < int S) (data p2)"
    by blast
  from Embedding_forward_returns[OF w ids] obtain we where
    we: "Embedding_forward (word_embeddings self) input_ids = Inr we" "shape we = [B, S, hid]"
    by blast
  have "\<exists>e1. (if \<not> use_relative_position self
                 then (case position_embeddings self of
                         Some table \<Rightarrow>
                           ebind (Embedding_forward table p2) (\<lambda>position_embeddings.
                             elementwise (+) we position_embeddings)
                       | None \<Rightarrow> Inl AttributeError)
                 else Inr we) = Inr e1 \<and> shape e1 = [B, S, hid]"
  proof (cases "use_relative_position self")
    case True
    then show ?thesis using we(2) by simp
  next
    case False
    with ps SP obtain table where tb: "position_embeddings self = Some table" "shape table = [P, hid]"
      and le: "S \<le> P" by auto
    from Embedding_forward_returns[OF tb(2) p(3) list_all_range_mono[OF p(4) le]]
    obtain pe where pe: "Embedding_forward table p2 = Inr pe" "shape pe = [B, S, hid]" by blast
    obtain e1 where "elementwise (+) we pe = Inr e1" "shape e1 = [B, S, hid]"
      using el_same3[OF we(2) pe(2), of "(+)"] by (auto elim: returnsE)
    then show ?thesis using False tb(1) pe(1) by simp
  qed
  then obtain e1 where e1: "(if \<not> use_relative_position self
                 then (case position_embeddings self of
                         Some table \<Rightarrow>
                           ebind (Embedding_forward table p2) (\<lambda>position_embeddings.
                             elementwise (+) we position_embeddings)
                       | None \<Rightarrow> Inl AttributeError)
                 else Inr we) = Inr e1" "shape e1 = [B, S, hid]"
    by blast
  from Embedding_forward_returns[OF t tt] obtain te where
    te: "Embedding_forward (token_type_embeddings self) token_type_ids = Inr te"
      "shape te = [B, S, hid]"
    by blast
  obtain e2 where e2: "elementwise (+) e1 te = Inr e2" "shape e2 = [B, S, hid]"
    using el_same3[OF e1(2) te(2), of "(+)"] by (auto elim: returnsE)
  from returns_LayerNorm[OF e2(2) ln] obtain e3 where
    e3: "LayerNorm_forward (embeddings_layer_norm self) e2 = Inr e3" "shape e3 = [B, S, hid]"
    by blast
  have "NeZhaEmbeddings_forward self training keep input_ids (Some token_type_ids) =
      Inr (dropout (embeddings_dropout self) training keep e3)"
    unfolding NeZhaEmbeddings_forward_def
    by (simp only: ids(1) list.case p(1,2) ebind_Inr option.case Let_def we(1) e1(1) te(1)
          e2(1) e3(1))
  then show ?thesis by (simp add: e3(2))
qed

lemma el_bias2: "shape x = [B, A] \<Longrightarrow> shape y = [A] \<Longrightarrow>
   returns (elementwise f x y) [B, A] (\<lambda>idx. f (get x idx) (get y [idx ! 1]))"
  by (auto simp add: elementwise_def broadcast_shapes_def Let_def bidx_def valid_index_Cons valid_index_Nil
        intro!: returns_tabulate)

lemma NeZhaPooler_forward_returns:
  assumes "shape x = [B, S, hid]" "0 < S"
    "shape (weight l) = [hid, hid]" "shape (bias l) = [hid]"
  shows "\<exists>p. NeZhaPooler_forward l x = Inr p \<and> shape p = [B, hid]"
proof -
  define f where "f = tabulate [B, hid] (\<lambda>idx. get x (hd idx # 0 # tl idx))"
  have 1: "select_first x = Inr f" using assms(1,2) by (simp add: select_first_def f_def)
  have sf: "shape f = [B, hid]" by (simp add: f_def)
  obtain y where y: "matmul f (weight l) = Inr y" "shape y = [B, hid]"
    using mm22[OF sf assms(3)] by (auto elim: returnsE)
  obtain z where z: "elementwise (+) y (bias l) = Inr z" "shape z = [B, hid]"
    using el_bias2[OF y(2) assms(4), of "(+)"] by (auto elim: returnsE)
  have "NeZhaPooler_forward l x = Inr (map_tensor tanh z)"
    by (simp add: NeZhaPooler_forward_def 1 Linear_forward_def y(1) z(1))
  then show ?thesis by (simp add: z(2))
qed


definition model_shapes :: "NeZhaModel \<Rightarrow> nat \<Rightarrow> nat \<Rightarrow> nat \<Rightarrow> nat \<Rightarrow> nat \<Rightarrow> nat \<Rightarrow> bool" where
  "model_shapes self vocabulary hidden_size intermediate_size type_vocab_size
       max_position_embeddings table_length =
     (embeddings_shapes (embeddings self) vocabulary hidden_size type_vocab_size
        max_position_embeddings \<and>
      list_all (\<lambda>l. layer_shapes l hidden_size intermediate_size table_length) (encoder self) \<and>
      shape (weight (pooler self)) = [hidden_size, hidden_size] \<and>
      shape (bias (pooler self)) = [hidden_size])"

lemma NeZhaModel_init_returns:
  assumes "0 < heads" "heads dvd hidden_size" "\<And>name s. shape (initializer name s) = s"
  shows "\<exists>self. NeZhaModel_init initializer vocabulary hidden_size num_hidden_layers heads
       intermediate_size hidden_act hidden_dropout_prob attention_probs_dropout_prob
       max_position_embeddings type_vocab_size max_relative_position layer_norm_eps relative =
         Inr self \<and>
       model_shapes self vocabulary hidden_size intermediate_size type_vocab_size
         max_position_embeddings 512 \<and>
       length (encoder self) = num_hidden_layers"
proof -
  from assms(1,2) have ok: "heads \<noteq> 0" "hidden_size mod heads = 0" by auto
  obtain a where a: "NeZhaAttention_init initializer hidden_size heads hidden_dropout_prob
              attention_probs_dropout_prob max_relative_position layer_norm_eps = Inr a"
    using NeZhaAttention_init_Inr[OF ok] by blast
  have sa: "attention_shapes a hidden_size 512"
    by (rule attention_shapes_init(1)[OF a assms(3)])
  define l where "l = \<lparr>layer_layer_norm =
                 LayerNorm_init initializer ''layer.layer_norm'' hidden_size layer_norm_eps,
               attention = a,
               ffn = Linear_init initializer ''ffn'' hidden_size intermediate_size,
               ffn_output = Linear_init initializer ''ffn_output'' intermediate_size hidden_size,
               activation = hidden_act,
               layer_dropout = hidden_dropout_prob\<rparr>"
  have li: "NeZhaLayer_init initializer hidden_size heads intermediate_size hidden_act
       hidden_dropout_prob attention_probs_dropout_prob max_relative_position layer_norm_eps = Inr l"
    by (simp add: NeZhaLayer_init_def a l_def)
  have ls: "layer_shapes l hidden_size intermediate_size 512"
    using sa assms(3) by (simp add: layer_shapes_def l_def Linear_init_def LayerNorm_init_def)
  define m where "m = \<lparr>embeddings =
            NeZhaEmbeddings_init initializer vocabulary hidden_size hidden_dropout_prob
              max_position_embeddings type_vocab_size relative,
          encoder = replicate num_hidden_layers l,
          pooler = Linear_init initializer ''pooler.dense'' hidden_size hidden_size\<rparr>"
  have mi: "NeZhaModel_init initializer vocabulary hidden_size num_hidden_layers heads
       intermediate_size hidden_act hidden_dropout_prob attention_probs_dropout_prob
       max_position_embeddings type_vocab_size max_relative_position layer_norm_eps relative = Inr m"
    by (simp add: NeZhaModel_init_def NeZhaEncoder_init_def li m_def)
  have "model_shapes m vocabulary hidden_size intermediate_size type_vocab_size
         max_position_embeddings 512"
    using ls assms(3)
    by (simp add: model_shapes_def m_def embeddings_shapes_def NeZhaEmbeddings_init_def
        Linear_init_def LayerNorm_init_def list_all_length)
  with mi show ?thesis by (simp add: m_def)
qed

text \<open>
  C10.  \<^verbatim>\<open>NeZhaModel.forward\<close> called without a mask substitutes an all-ones mask, so the
  extended additive mask \<open>(1 - mask) * -10000\<close> is zero everywhere; in general an entry 1 of
  the mask becomes the bias 0 and an entry 0 becomes \<open>-10000\<close>.  The forward pass returns,
  and every encoder layer \<open>k\<close> is called on the running hidden state with this extended
  mask.
\<close>

theorem NeZhaModel_forward_attention_mask:
  assumes "model_shapes self vocabulary hidden_size intermediate_size type_vocab_size
             max_position_embeddings table_length"
    and "shape input_ids = [B, S]"
    and "list_all (\<lambda>v. 0 \<le> v \<and> v < int vocabulary) (data input_ids)"
    and "0 < S" "S \<le> table_length"
    and "use_relative_position (embeddings self) \<or> S \<le> max_position_embeddings"
    and "case token_type_ids of None \<Rightarrow> 0 < type_vocab_size
         | Some t \<Rightarrow> shape t = [B, S] \<and> list_all (\<lambda>v. 0 \<le> v \<and> v < int type_vocab_size) (data t)"
    and "case attention_mask of None \<Rightarrow> True | Some m \<Rightarrow> shape m = [B, S] \<and> wf_tensor m"
  shows "\<exists>extended embedding_output hiddens atts pooled_output.
     extended_attention_mask
        (case attention_mask of None \<Rightarrow> ones_like input_ids | Some m \<Rightarrow> m) = Inr extended \<and>
     shape extended = [B, 1, 1, S] \<and>
     (\<forall>b j. b < B \<longrightarrow> j < S \<longrightarrow>
        get extended [b, 0, 0, j] =
          (1 - get (case attention_mask of None \<Rightarrow> ones_like input_ids | Some m \<Rightarrow> m) [b, j])
            * (- 10000) \<and>
        (attention_mask = None \<longrightarrow> get extended [b, 0, 0, j] = 0) \<and>
        (\<forall>m. attention_mask = Some m \<longrightarrow>
           (get m [b, j] = 1 \<longrightarrow> get extended [b, 0, 0, j] = 0) \<and>
           (get m [b, j] = 0 \<longrightarrow> get extended [b, 0, 0, j] = - 10000))) \<and>
     NeZhaEncoder_forward (encoder self) training (\<lambda>i. rng (Suc i)) embedding_output extended =
        Inr (hiddens, atts) \<and>
     NeZhaModel_forward self training rng input_ids token_type_ids attention_mask =
        Inr (last hiddens, pooled_output) \<and>
     length hiddens = length (encoder self) + 1 \<and>
     (\<forall>k<length (encoder self).
        NeZhaLayer_forward (encoder self ! k) training (rng (Suc k)) (hiddens ! k) extended =
          Inr (hiddens ! Suc k, atts ! k))"
proof -
  define am where "am = (case attention_mask of None \<Rightarrow> ones_like input_ids | Some m \<Rightarrow> m)"
  define tt where "tt = (case token_type_ids of None \<Rightarrow> zeros_like input_ids | Some t \<Rightarrow> t)"
  have n: "prod_list [B, S] = B * S" by simp
  have am: "shape am = [B, S]" "wf_tensor am"
    using assms(8) by (auto simp: am_def assms(2) ones_like_def split: option.splits)
  have tt: "shape tt = [B, S]" "list_all (\<lambda>v. 0 \<le> v \<and> v < int type_vocab_size) (data tt)"
    using assms(7)
    by (auto simp: tt_def assms(2) zeros_like_def full_def list_all_length split: option.splits)
  from assms(1) have es: "embeddings_shapes (embeddings self) vocabulary hidden_size
        type_vocab_size max_position_embeddings"
    and ls: "list_all (\<lambda>l. layer_shapes l hidden_size intermediate_size table_length) (encoder self)"
    and po: "shape (weight (pooler self)) = [hidden_size, hidden_size]"
      "shape (bias (pooler self)) = [hidden_size]"
    by (auto simp: model_shapes_def)
  obtain ext where ext: "extended_attention_mask am = Inr ext" "shape ext = [B, 1, 1, S]"
    "\<And>idx. valid_index [B, 1, 1, S] idx \<Longrightarrow> get ext idx = (1 - get am [idx ! 0, idx ! 3]) * (- 10000)"
    by (rule returnsE[OF returns_extended_attention_mask[OF am]]) blast
  have ext_get: "get ext [b, 0, 0, j] = (1 - get am [b, j]) * (- 10000)" if "b < B" "j < S" for b j
    using that by (simp add: ext(3))
  have ones: "get am [b, j] = 1" if "attention_mask = None" "b < B" "j < S" for b j
    using that by (simp add: am_def get_ones_like assms(2))
  from NeZhaEmbeddings_forward_returns[OF es assms(2,3) tt assms(6), of training "rng 0 0"]
  obtain emb where emb: "NeZhaEmbeddings_forward (embeddings self) training (rng 0 0) input_ids
       (Some tt) = Inr emb" "shape emb = [B, S, hidden_size]"
    by blast
  from NeZhaEncoder_forward_returns[OF ls emb(2) ext(2) assms(5), of training "\<lambda>i. rng (Suc i)"]
  obtain hiddens atts where
    enc: "NeZhaEncoder_forward (encoder self) training (\<lambda>i. rng (Suc i)) emb ext = Inr (hiddens, atts)"
      "shape (last hiddens) = [B, S, hidden_size]"
    by blast
  note calls = NeZhaEncoder_forward_calls[OF enc(1)]
  from NeZhaPooler_forward_returns[OF enc(2) assms(4) po] obtain pooled where
    pooled: "NeZhaPooler_forward (pooler self) (last hiddens) = Inr pooled"
    by blast
  have fw: "NeZhaModel_forward self training rng input_ids token_type_ids attention_mask =
        Inr (last hiddens, pooled)"
    unfolding NeZhaModel_forward_def
    by (simp only: Let_def am_def[symmetric] tt_def[symmetric] ext(1) ebind_Inr emb(1) enc(1)
          prod.case pooled)
  show ?thesis
    apply (rule exI[of _ ext], rule exI[of _ emb], rule exI[of _ hiddens], rule exI[of _ atts],
           rule exI[of _ pooled])
    unfolding am_def[symmetric]
    using ext(1,2) ext_get ones enc(1) fw calls
    by (auto simp: am_def)
qed


theorem NeZhaModel_forward_attention_mask_witness:
  "\<exists>self extended hiddens atts pooled_output.
     NeZhaModel_init (\<lambda>name s. full s 0) 3 2 2 1 4 (\<lambda>x. x) (1/10) (1/10) 512 2 1 (1/10^12) True =
       Inr self \<and>
     extended_attention_mask (Tensor [1, 2] [1, 0]) = Inr extended \<and>
     get extended [0, 0, 0, 0] = 0 \<and> get extended [0, 0, 0, 1] = - 10000 \<and>
     NeZhaModel_forward self False (\<lambda>i n k. True) (Tensor [1, 2] [0, 2]) None
        (Some (Tensor [1, 2] [1, 0])) = Inr (last hiddens, pooled_output) \<and>
     length hiddens = 3 \<and>
     NeZhaLayer_forward (encoder self ! 0) False (\<lambda>n k. True) (hiddens ! 0) extended =
       Inr (hiddens ! 1, atts ! 0) \<and>
     NeZhaLayer_forward (encoder self ! 1) False (\<lambda>n k. True) (hiddens ! 1) extended =
       Inr (hiddens ! 2, atts ! 1)"
proof -
  have "\<exists>self. NeZhaModel_init (\<lambda>name s. full s (0::real)) 3 2 2 1 4 (\<lambda>x. x) (1/10) (1/10) 512 2 1
          (1/10^12) True = Inr self \<and> model_shapes self 3 2 4 2 512 512 \<and> length (encoder self) = 2"
    by (rule NeZhaModel_init_returns) simp_all
  then obtain self where
    init: "NeZhaModel_init (\<lambda>name s. full s (0::real)) 3 2 2 1 4 (\<lambda>x. x) (1/10) (1/10) 512 2 1
          (1/10^12) True = Inr self"
    and ms: "model_shapes self 3 2 4 2 512 512" and len: "length (encoder self) = 2"
    by blast
  have h: "shape (Tensor [1, 2] [0, 2 :: int]) = [1, 2]"
    "list_all (\<lambda>v. 0 \<le> v \<and> v < int 3) (data (Tensor [1, 2] [0, 2 :: int]))"
    "(0::nat) < 2" "(2::nat) \<le> 512"
    "use_relative_position (embeddings self) \<or> (2::nat) \<le> 512"
    "case None :: int tensor option of None \<Rightarrow> (0::nat) < 2
         | Some t \<Rightarrow> shape t = [1, 2] \<and> list_all (\<lambda>v. 0 \<le> v \<and> v < int 2) (data t)"
    "case Some (Tensor [1, 2] [1, 0 :: real]) of None \<Rightarrow> True
         | Some m \<Rightarrow> shape m = [1, 2] \<and> wf_tensor m"
    by (simp_all add: wf_tensor_def)
  from NeZhaModel_forward_attention_mask[OF ms h, of False "\<lambda>i n k. True"]
  obtain extended emb hiddens atts pooled where
    e: "extended_attention_mask (Tensor [1, 2] [1, 0]) = Inr extended"
    and g: "\<forall>b j. b < 1 \<longrightarrow> j < 2 \<longrightarrow>
        get extended [b, 0, 0, j] =
          (1 - get (case Some (Tensor [1, 2] [1, 0 :: real]) of
                      None \<Rightarrow> ones_like (Tensor [1, 2] [0, 2 :: int]) | Some m \<Rightarrow> m) [b, j])
            * (- 10000) \<and>
        (Some (Tensor [1, 2] [1, 0 :: real]) = None \<longrightarrow> get extended [b, 0, 0, j] = 0) \<and>
        (\<forall>m. Some (Tensor [1, 2] [1, 0 :: real]) = Some m \<longrightarrow>
           (get m [b, j] = 1 \<longrightarrow> get extended [b, 0, 0, j] = 0) \<and>
           (get m [b, j] = 0 \<longrightarrow> get extended [b, 0, 0, j] = - 10000))"
    and f: "NeZhaModel_forward self False (\<lambda>i n k. True) (Tensor [1, 2] [0, 2]) None
        (Some (Tensor [1, 2] [1, 0])) = Inr (last hiddens, pooled)"
    and l: "length hiddens = length (encoder self) + 1"
    and c: "\<forall>k<length (encoder self).
        NeZhaLayer_forward (encoder self ! k) False (\<lambda>n k. True) (hiddens ! k) extended =
          Inr (hiddens ! Suc k, atts ! k)"
    by auto
  have g0: "get extended [0, 0, 0, 0] = 0" using g[rule_format, of 0 0] by (simp add: get_def)
  have g1: "get extended [0, 0, 0, 1] = - 10000" using g[rule_format, of 0 1] by (simp add: get_def)
  from c len have c0: "NeZhaLayer_forward (encoder self ! 0) False (\<lambda>n k. True) (hiddens ! 0) extended =
       Inr (hiddens ! 1, atts ! 0)"
    and c1: "NeZhaLayer_forward (encoder self ! 1) False (\<lambda>n k. True) (hiddens ! 1) extended =
       Inr (hiddens ! 2, atts ! 1)"
    by (auto simp: numeral_2_eq_2)
  show ?thesis
    apply (rule exI[of _ self], rule exI[of _ extended], rule exI[of _ hiddens], rule exI[of _ atts],
           rule exI[of _ pooled])
    using init e g0 g1 f l len c0 c1 by simp
qed

subsection \<open>Construction of the model\<close>




end
